theory Spec2Isabelle
  imports Main "HOL-Library.List_Lexorder" "HOL-Library.Char_ord"
begin

section \<open>Data model\<close>

text \<open>
  The bot of \<^verbatim>\<open>cmd/bot/main.go\<close> is a set of handler closures registered with
  \<^verbatim>\<open>Bot.Start\<close> (package \<^verbatim>\<open>telegram\<close>). A handler computes nothing by
  itself: everything it does is a call to a collaborator (fridge service, suggestion service,
  OpenAI client, poll service, message service, state manager, Telegram API). The model
  therefore records, for every handler, the calls it makes, in the order it makes them, as a
  list of events, and takes the replies of the collaborators as parameters: a reply is any
  function of the arguments of the call.

  Go errors are modelled by their message. A Go function returning \<^verbatim>\<open>(T, error)\<close>
  replies with a sum (\<open>Inl\<close> the error), a function returning only \<^verbatim>\<open>error\<close>
  replies with an option (\<open>None\<close> is \<^verbatim>\<open>nil\<close>).
\<close>

type_synonym err = string

text \<open>\<^verbatim>\<open>models.Ingredient\<close>: the handlers read \<^verbatim>\<open>Name\<close> and \<^verbatim>\<open>Quantity\<close>.\<close>

record ingredient =
  ing_Name :: string
  ing_Quantity :: string

text \<open>\<^verbatim>\<open>models.SuggestedDish\<close>: the handlers read \<^verbatim>\<open>ID\<close>, \<^verbatim>\<open>Name\<close>,
  \<^verbatim>\<open>Cuisine\<close>, \<^verbatim>\<open>Description\<close> and \<^verbatim>\<open>Username\<close>.\<close>

record suggested_dish =
  sd_ID :: string
  sd_Name :: string
  sd_Cuisine :: string
  sd_Description :: string
  sd_Username :: string

text \<open>The OpenAI client answers with \<^verbatim>\<open>map[string]interface{}\<close> values decoded from JSON.\<close>

datatype json =
    JString string
  | JNumber int
  | JBool bool
  | JNull
  | JArray "json list"
  | JObject "(string \<times> json) list"

type_synonym json_map = "string \<rightharpoonup> json"

text \<open>\<^verbatim>\<open>s, _ := m[key].(string)\<close>: the string stored under the key, and the empty string
  when the key is absent or holds something else.\<close>

definition as_string :: "json option \<Rightarrow> string" where
  "as_string v = (case v of Some (JString s) \<Rightarrow> s | _ \<Rightarrow> [])"

text \<open>\<^verbatim>\<open>l, ok := m[key].([]interface{})\<close>\<close>

definition as_list :: "json option \<Rightarrow> json list option" where
  "as_list v = (case v of Some (JArray l) \<Rightarrow> Some l | _ \<Rightarrow> None)"

text \<open>
  Modelled from the spec: package \<^verbatim>\<open>state\<close> is not among the sources. The spec names the
  modes Idle, AwaitingIngredientsText, AwaitingPhotos and AwaitingDishName; the handlers name
  the last three \<^verbatim>\<open>StateAddingIngredients\<close>, \<^verbatim>\<open>StateAddingPhotos\<close> and
  \<^verbatim>\<open>StateSuggestingDish\<close>.
\<close>

datatype chat_state = StateIdle | StateAddingIngredients | StateAddingPhotos | StateSuggestingDish

text \<open>What is handed to \<^verbatim>\<open>bot.Send\<close>: a new message with an inline keyboard (rows of
  buttons, each a label and its callback data), or an edit of a message's text that also
  replaces its keyboard.\<close>

type_synonym keyboard = "(string \<times> string) list list"

datatype chattable =
    MessageConfig int string keyboard
  | EditMessageTextConfig int int string keyboard

text \<open>One constructor per collaborator method the handlers call, with the call's arguments.\<close>

datatype event =
    LogInfo string
  | LogError string
  | ListIngredients int
  | ResetFridge int
  | AddIngredient int string string
  | GetUnusedSuggestions int
  | MarkAsUsed string
  | AddSuggestion int string string string string string
  | SuggestDinnerOptions "string list" "string list" int
  | ExtractIngredientsFromPhoto string
  | ParseIngredientsFromText string
  | GetDishInfo string
  | GenerateWelcomeMessage
  | GenerateErrorMessage string
  | SendMessage int string
  | EditMessage int int string
  | CreatePoll int string "string list"
  | CreateVote int string int "string list"
  | AnswerCallbackQuery string string
  | GetFileURL string
  | Send chattable
  | SetState int chat_state
  | ClearState int

text \<open>
  The replies of the collaborators. Calls that return a \<^verbatim>\<open>tgbotapi.Message\<close> reply with
  its \<^verbatim>\<open>MessageID\<close>, the only field the handlers read. \<^verbatim>\<open>dinner.CompareIngredients\<close>
  is a function of a package that is not among the sources.
\<close>

record env =
  listIngredients :: "int \<Rightarrow> err + ingredient list"
  resetFridge :: "int \<Rightarrow> err option"
  addIngredient :: "int \<Rightarrow> string \<Rightarrow> string \<Rightarrow> err option"
  getUnusedSuggestions :: "int \<Rightarrow> err + suggested_dish list"
  markAsUsed :: "string \<Rightarrow> err option"
  addSuggestion :: "int \<Rightarrow> string \<Rightarrow> string \<Rightarrow> string \<Rightarrow> string \<Rightarrow> string \<Rightarrow> err + suggested_dish"
  suggestDinnerOptions :: "string list \<Rightarrow> string list \<Rightarrow> int \<Rightarrow> err + json_map list"
  extractIngredientsFromPhoto :: "string \<Rightarrow> err + string list"
  parseIngredientsFromText :: "string \<Rightarrow> err + string list"
  getDishInfo :: "string \<Rightarrow> err + json_map"
  compareIngredients :: "string list \<Rightarrow> string list \<Rightarrow> string list"
  generateWelcomeMessage :: string
  generateErrorMessage :: "string \<Rightarrow> string"
  sendMessage :: "int \<Rightarrow> string \<Rightarrow> err + int"
  createPoll :: "int \<Rightarrow> string \<Rightarrow> string list \<Rightarrow> err + int"
  createVote :: "int \<Rightarrow> string \<Rightarrow> int \<Rightarrow> string list \<Rightarrow> err option"
  getFileURL :: "string \<Rightarrow> err + string"

text \<open>\<^verbatim>\<open>config.Config\<close>: the handlers read \<^verbatim>\<open>Cuisines\<close>.\<close>

record config =
  Cuisines :: "string list"

text \<open>
  A handler is modelled by the list of the calls it makes, in order. The one collaborator
  whose state the handlers read back is the state manager.
\<close>

text \<open>
  Modelled from the spec: the state manager (package \<^verbatim>\<open>state\<close>, not among the sources) is
  a per-chat mode with get, set and clear, where a chat never set, or cleared, is Idle. Its
  table after a handler has run is the table before, updated by the handler's
  \<^verbatim>\<open>SetState\<close> and \<^verbatim>\<open>ClearState\<close> calls in order.
\<close>

type_synonym state_table = "int \<Rightarrow> chat_state"

definition GetState :: "state_table \<Rightarrow> int \<Rightarrow> chat_state" where
  "GetState tbl chatID = tbl chatID"

fun apply_event :: "state_table \<Rightarrow> event \<Rightarrow> state_table" where
  "apply_event tbl (SetState chatID s) = tbl(chatID := s)"
| "apply_event tbl (ClearState chatID) = tbl(chatID := StateIdle)"
| "apply_event tbl _ = tbl"

definition apply_events :: "state_table \<Rightarrow> event list \<Rightarrow> state_table" where
  "apply_events tbl es = foldl apply_event tbl es"

text \<open>\<^verbatim>\<open>msg, _ := bot.SendMessage(...)\<close>: the error is dropped and the message is read all
  the same; on an error the library returns the zero \<^verbatim>\<open>Message\<close>, whose id is 0.\<close>

definition message_id_of :: "err + int \<Rightarrow> int" where
  "message_id_of r = (case r of Inl e \<Rightarrow> 0 | Inr i \<Rightarrow> i)"

subsection \<open>Formatting\<close>

definition digit_char :: "nat \<Rightarrow> char" where
  "digit_char d =
     (if d = 0 then CHR ''0'' else if d = 1 then CHR ''1'' else if d = 2 then CHR ''2''
      else if d = 3 then CHR ''3'' else if d = 4 then CHR ''4'' else if d = 5 then CHR ''5''
      else if d = 6 then CHR ''6'' else if d = 7 then CHR ''7'' else if d = 8 then CHR ''8''
      else CHR ''9'')"

fun string_of_nat :: "nat \<Rightarrow> string" where
  "string_of_nat n =
     (if n < 10 then [digit_char n] else string_of_nat (n div 10) @ [digit_char (n mod 10)])"

declare string_of_nat.simps [simp del]

text \<open>\<^verbatim>\<open>fmt.Sprintf("%d", n)\<close>\<close>

definition sprint_d :: "int \<Rightarrow> string" where
  "sprint_d i = (if i < 0 then CHR ''-'' # string_of_nat (nat (- i)) else string_of_nat (nat i))"

text \<open>Go strings are byte sequences: the emoji of the message texts are their UTF-8 bytes.\<close>

definition emoji_cry :: string where
  "emoji_cry = [CHR 0xF0, CHR 0x9F, CHR 0x98, CHR 0xA2]"

definition emoji_monocle :: string where
  "emoji_monocle = [CHR 0xF0, CHR 0x9F, CHR 0xA7, CHR 0x90]"

definition emoji_pot :: string where
  "emoji_pot = [CHR 0xF0, CHR 0x9F, CHR 0x8D, CHR 0xB2]"

definition emoji_fork :: string where
  "emoji_fork = [CHR 0xF0, CHR 0x9F, CHR 0x8D, CHR 0xB4]"

definition emoji_ballot :: string where
  "emoji_ballot = [CHR 0xF0, CHR 0x9F, CHR 0x97, CHR 0xB3]"

definition emoji_broom :: string where
  "emoji_broom = [CHR 0xF0, CHR 0x9F, CHR 0xA7, CHR 0xB9]"

definition emoji_check :: string where
  "emoji_check = [CHR 0xE2, CHR 0x9C, CHR 0x85]"

definition emoji_glass :: string where
  "emoji_glass = [CHR 0xF0, CHR 0x9F, CHR 0x94, CHR 0x8D]"

definition emoji_camera :: string where
  "emoji_camera = [CHR 0xF0, CHR 0x9F, CHR 0x93, CHR 0xB7]"

definition emoji_ice :: string where
  "emoji_ice = [CHR 0xF0, CHR 0x9F, CHR 0xA7, CHR 0x8A]"

definition bullet :: string where
  "bullet = [CHR 0xE2, CHR 0x80, CHR 0xA2]"

subsection \<open>Updates\<close>

text \<open>
  The parts of \<^verbatim>\<open>tgbotapi.Update\<close> the program reads. \<^verbatim>\<open>IsCommand()\<close>,
  \<^verbatim>\<open>Command()\<close> and \<^verbatim>\<open>CommandArguments()\<close> are methods of the library that parse the
  text of the message; the model takes their results as fields. A pointer that the Telegram
  API leaves out in some updates (\<^verbatim>\<open>Message.From\<close>, \<^verbatim>\<open>CallbackQuery.Message\<close>,
  \<^verbatim>\<open>Update.Message\<close>, \<^verbatim>\<open>Update.CallbackQuery\<close>) is an option, and following it when
  it is \<^verbatim>\<open>nil\<close> is the panic of the Go runtime. \<^verbatim>\<open>CallbackQuery.From\<close> and
  \<^verbatim>\<open>Message.Chat\<close> are in every update. The photo of a message is the list of its sizes,
  each by its \<^verbatim>\<open>FileID\<close>.
\<close>

record user =
  user_ID :: int
  user_UserName :: string
  user_FirstName :: string

record tg_message =
  msg_MessageID :: int
  msg_ChatID :: int
  msg_From :: "user option"
  msg_Text :: string
  msg_Photo :: "string list"
  msg_IsCommand :: bool
  msg_Command :: string
  msg_CommandArguments :: string

record callback_query =
  cb_ID :: string
  cb_From :: user
  cb_Message :: "tg_message option"
  cb_Data :: string

record update =
  upd_Message :: "tg_message option"
  upd_CallbackQuery :: "callback_query option"

datatype panic = NilPointerDereference

section \<open>The dinner command\<close>

definition msg_fridge_empty :: string where
  "msg_fridge_empty = emoji_cry @ '' Your fridge is empty! Please add some ingredients with /sync_fridge or /add_photo before I can suggest dinner options.''"

definition msg_thinking :: string where
  "msg_thinking = emoji_monocle @ '' Thinking about dinner options based on your ingredients... This might take a moment.''"

definition msg_no_suggestions :: string where
  "msg_no_suggestions = emoji_cry @ '' Sorry, I couldn't come up with dinner suggestions right now. Please try again later.''"

definition msg_no_dishes :: string where
  "msg_no_dishes = emoji_cry @ '' I couldn't find any suitable dishes based on your fridge contents. Try adding more ingredients with /fridge or suggest your own dishes with /suggest.''"

definition msg_suggestions_header :: string where
  "msg_suggestions_header = emoji_pot @ '' Here are some dinner suggestions based on your ingredients:\<newline>\<newline>''"

definition poll_question :: string where
  "poll_question = ''What should we cook tonight?''"

definition msg_please_vote :: string where
  "msg_please_vote = emoji_ballot @ '' Please vote for your preferred dinner option! The poll is above.''"

text \<open>Lines 112 to 120: the value of \<^verbatim>\<open>aiSuggestionCount\<close>, how many suggestions to ask the
  OpenAI client for, from the number of user suggestions.\<close>

definition computeAiSuggestionCount :: "nat \<Rightarrow> int" where
  "computeAiSuggestionCount n =
     (if n > 0 then (if 4 - int n < 2 then 2 else 4 - int n) else 4)"

text \<open>The three values the two loops of lines 153 to 179 write, and the calls they make.\<close>

record merge_state =
  options :: "string list"
  dishNames :: "string list"
  detailedMsg :: string
  calls :: "event list"

text \<open>Lines 154 to 165, \<^verbatim>\<open>for i, suggestion := range userSuggestions\<close>, from index \<open>i\<close> on.\<close>

fun add_user_suggestions :: "env \<Rightarrow> nat \<Rightarrow> suggested_dish list \<Rightarrow> merge_state \<Rightarrow> merge_state" where
  "add_user_suggestions env i [] st = st"
| "add_user_suggestions env i (suggestion # rest) st =
     add_user_suggestions env (Suc i) rest
       \<lparr>options = (options st)[i := sd_Name suggestion],
        dishNames = (dishNames st)[i := sd_Name suggestion @ '' ('' @ sd_Cuisine suggestion
                      @ '') - suggested by @'' @ sd_Username suggestion],
        detailedMsg = detailedMsg st @ emoji_fork @ '' *'' @ sd_Name suggestion @ ''* (''
                      @ sd_Cuisine suggestion @ '')\<newline>'' @ sd_Description suggestion
                      @ ''\<newline>_Suggested by @'' @ sd_Username suggestion @ ''_\<newline>\<newline>'',
        calls = calls st @ MarkAsUsed (sd_ID suggestion) #
                  (case markAsUsed env (sd_ID suggestion) of
                     Some e \<Rightarrow> [LogError (''Failed to mark suggestion as used: '' @ e)]
                   | None \<Rightarrow> [])\<rparr>"

text \<open>Lines 168 to 179, \<^verbatim>\<open>for i, suggestion := range aiSuggestions\<close>, from index \<open>i\<close> on;
  \<open>n\<close> is \<^verbatim>\<open>len(userSuggestions)\<close>.\<close>

fun add_ai_suggestions :: "nat \<Rightarrow> nat \<Rightarrow> json_map list \<Rightarrow> merge_state \<Rightarrow> merge_state" where
  "add_ai_suggestions n i [] st = st"
| "add_ai_suggestions n i (suggestion # rest) st =
     (let name = as_string (suggestion ''name'');
          cuisine = as_string (suggestion ''cuisine'');
          description = as_string (suggestion ''description'');
          index = n + i
      in add_ai_suggestions n (Suc i) rest
           \<lparr>options = (options st)[index := name],
            dishNames = (dishNames st)[index := name @ '' ('' @ cuisine @ '')''],
            detailedMsg = detailedMsg st @ emoji_fork @ '' *'' @ name @ ''* ('' @ cuisine
                          @ '')\<newline>'' @ description @ ''\<newline>\<newline>'',
            calls = calls st\<rparr>)"

text \<open>Lines 137 to 200: the merge of the two sources, the poll and the vote state. The two
  slices are allocated with \<^verbatim>\<open>totalSuggestions\<close> elements and the loops write the indices
  below \<^verbatim>\<open>len(userSuggestions)\<close> and then those from there to the total, so no write is out
  of range, where Go would panic and the list update of HOL would do nothing.\<close>

definition dinner_merge ::
  "env \<Rightarrow> int \<Rightarrow> int \<Rightarrow> suggested_dish list \<Rightarrow> json_map list \<Rightarrow> event list" where
  "dinner_merge env chatID processingMsg userSuggestions aiSuggestions =
     (if length aiSuggestions = 0 \<and> length userSuggestions = 0
      then [EditMessage chatID processingMsg msg_no_dishes]
      else
        let totalSuggestions = length aiSuggestions + length userSuggestions;
            st0 = \<lparr>options = replicate totalSuggestions [],
                   dishNames = replicate totalSuggestions [],
                   detailedMsg = msg_suggestions_header,
                   calls = []\<rparr>;
            st1 = add_user_suggestions env 0 userSuggestions st0;
            st2 = add_ai_suggestions (length userSuggestions) 0 aiSuggestions st1
        in calls st2 @
           EditMessage chatID processingMsg (detailedMsg st2) #
           CreatePoll chatID poll_question (options st2) #
           (case createPoll env chatID poll_question (options st2) of
              Inl e \<Rightarrow>
                [LogError (''Failed to create poll: '' @ e),
                 GenerateErrorMessage ''create poll'',
                 SendMessage chatID (generateErrorMessage env ''create poll'')]
            | Inr pollMsg \<Rightarrow>
                CreateVote chatID (sprint_d pollMsg) pollMsg (options st2) #
                (case createVote env chatID (sprint_d pollMsg) pollMsg (options st2) of
                   Some e \<Rightarrow> [LogError (''Failed to create vote state: '' @ e)]
                 | None \<Rightarrow> []) @
                [SendMessage chatID msg_please_vote]))"

text \<open>Lines 104 to 110: the user suggestions the handler goes on with, and what it logs.\<close>

definition userSuggestions_of :: "err + suggested_dish list \<Rightarrow> suggested_dish list" where
  "userSuggestions_of r = (case r of Inl e \<Rightarrow> [] | Inr l \<Rightarrow> l)"

text \<open>Lines 77 to 135: the handler of \<^verbatim>\<open>/dinner\<close> up to the merge.\<close>

definition dinner :: "env \<Rightarrow> config \<Rightarrow> tg_message \<Rightarrow> event list" where
  "dinner env cfg message =
     (let chatID = msg_ChatID message
      in ListIngredients chatID #
         (case listIngredients env chatID of
            Inl e \<Rightarrow>
              [LogError (''Failed to list ingredients: '' @ e),
               GenerateErrorMessage ''retrieve fridge contents'',
               SendMessage chatID (generateErrorMessage env ''retrieve fridge contents'')]
          | Inr ingredients \<Rightarrow>
              if length ingredients = 0 then [SendMessage chatID msg_fridge_empty]
              else
                let ingredientNames = map ing_Name ingredients;
                    processingMsg = message_id_of (sendMessage env chatID msg_thinking);
                    userSuggestions = userSuggestions_of (getUnusedSuggestions env chatID);
                    aiSuggestionCount = computeAiSuggestionCount (length userSuggestions)
                in SendMessage chatID msg_thinking #
                   GetUnusedSuggestions chatID #
                   (case getUnusedSuggestions env chatID of
                      Inl e \<Rightarrow> [LogError (''Failed to get user suggestions: '' @ e)]
                    | Inr l \<Rightarrow> []) @
                   SuggestDinnerOptions ingredientNames (Cuisines cfg) aiSuggestionCount #
                   (case suggestDinnerOptions env ingredientNames (Cuisines cfg) aiSuggestionCount of
                      Inl e \<Rightarrow>
                        LogError (''Failed to get dinner suggestions: '' @ e) #
                        (if length userSuggestions = 0
                         then [EditMessage chatID processingMsg msg_no_suggestions]
                         else dinner_merge env chatID processingMsg userSuggestions [])
                    | Inr aiSuggestions \<Rightarrow>
                        dinner_merge env chatID processingMsg userSuggestions aiSuggestions)))"

section \<open>The sync_fridge command\<close>

definition msg_fridge_reset :: string where
  "msg_fridge_reset = emoji_broom @ '' Fridge reset! Now, please send me a list of ingredients you have. You can send multiple messages, and I'll add all the ingredients to your fridge.''"

text \<open>Lines 236 to 252.\<close>

definition sync_fridge :: "env \<Rightarrow> tg_message \<Rightarrow> event list" where
  "sync_fridge env message =
     (let chatID = msg_ChatID message
      in ResetFridge chatID #
         (case resetFridge env chatID of
            Some e \<Rightarrow>
              [LogError (''Failed to reset fridge: '' @ e),
               GenerateErrorMessage ''reset fridge'',
               SendMessage chatID (generateErrorMessage env ''reset fridge'')]
          | None \<Rightarrow>
              [SetState chatID StateAddingIngredients,
               SendMessage chatID msg_fridge_reset]))"

section \<open>Showing the fridge\<close>

definition msg_fridge_unavailable :: string where
  "msg_fridge_unavailable = emoji_cry @ '' Sorry, I couldn't retrieve your fridge contents right now. Please try again later.''"

definition msg_fridge_is_empty :: string where
  "msg_fridge_is_empty = ''Your fridge is empty! Add ingredients with /sync_fridge or by sending a photo with /add_photo.''"

text \<open>
  The listing that the commands \<^verbatim>\<open>/fridge\<close> and \<^verbatim>\<open>/show_fridge\<close> and the callbacks
  \<^verbatim>\<open>show_fridge\<close> and \<^verbatim>\<open>done_adding_photos\<close> each build with the same lines: the
  ingredients sorted by name (byte order, as Go compares strings), one bullet line each.
  \<^verbatim>\<open>sort.Slice\<close> is not stable: it leaves the order of entries with equal names open, and
  the model fixes it to their order of arrival. The two agree on every list without equal
  names, which is every list of one chat when the name is the key of the fridge, as the spec
  has it. No statement below reads the text of a listing.
\<close>

definition ingredient_line :: "ingredient \<Rightarrow> string" where
  "ingredient_line ingredient =
     (if ing_Quantity ingredient \<noteq> []
      then bullet @ '' '' @ ing_Name ingredient @ '' ('' @ ing_Quantity ingredient @ '')\<newline>''
      else bullet @ '' '' @ ing_Name ingredient @ ''\<newline>'')"

definition fridge_listing :: "ingredient list \<Rightarrow> string" where
  "fridge_listing ingredients =
     emoji_ice @ '' Here's what's in your fridge:\<newline>\<newline>''
       @ concat (map ingredient_line (sort_key ing_Name ingredients))"

text \<open>Lines 202 to 235, and again lines 253 to 287.\<close>

definition fridge :: "env \<Rightarrow> tg_message \<Rightarrow> event list" where
  "fridge env message =
     (let chatID = msg_ChatID message
      in ListIngredients chatID #
         (case listIngredients env chatID of
            Inl e \<Rightarrow>
              [LogError (''Failed to list ingredients: '' @ e),
               SendMessage chatID msg_fridge_unavailable]
          | Inr ingredients \<Rightarrow>
              if length ingredients = 0 then [SendMessage chatID msg_fridge_is_empty]
              else [SendMessage chatID (fridge_listing ingredients)]))"

text \<open>Lines 73 to 76.\<close>

definition start :: "env \<Rightarrow> tg_message \<Rightarrow> event list" where
  "start env message =
     [GenerateWelcomeMessage, SendMessage (msg_ChatID message) (generateWelcomeMessage env)]"

section \<open>Adding ingredients\<close>

text \<open>\<^verbatim>\<open>strings.Join(elems, sep)\<close>\<close>

fun join :: "string list \<Rightarrow> string \<Rightarrow> string" where
  "join [] sep = []"
| "join [x] sep = x"
| "join (x # y # rest) sep = x @ sep @ join (y # rest) sep"

text \<open>
  \<^verbatim>\<open>for _, ingredient := range ingredients\<close>: the loop of lines 324 to 329, 516 to 521 and
  579 to 584. An error of \<^verbatim>\<open>AddIngredient\<close> is logged and the loop goes on.
\<close>

fun add_ingredients :: "env \<Rightarrow> int \<Rightarrow> string list \<Rightarrow> event list" where
  "add_ingredients env chatID [] = []"
| "add_ingredients env chatID (ingredient # rest) =
     AddIngredient chatID ingredient [] #
     (case addIngredient env chatID ingredient [] of
        Some e \<Rightarrow> [LogError (''Failed to add ingredient '' @ ingredient @ '': '' @ e)]
      | None \<Rightarrow> []) @
     add_ingredients env chatID rest"

definition msg_processing_photo :: string where
  "msg_processing_photo = emoji_glass @ '' Processing your photo... This might take a moment.''"

definition msg_photo_failed :: string where
  "msg_photo_failed = emoji_cry @ '' Sorry, I couldn't process your photo. Please try again.''"

definition msg_photo_unreadable :: string where
  "msg_photo_unreadable = emoji_cry @ '' Sorry, I couldn't identify any ingredients in your photo. Please try again with a clearer photo.''"

definition msg_photo_nothing :: string where
  "msg_photo_nothing = ''I couldn't identify any ingredients in your photo. Please try again with a clearer photo.''"

definition msg_photo_found :: "string list \<Rightarrow> string" where
  "msg_photo_found ingredients =
     emoji_check @ '' I found '' @ sprint_d (int (length ingredients))
       @ '' ingredients in your photo: '' @ join ingredients '', ''"

definition msg_more_photos :: string where
  "msg_more_photos = ''Send more photos of your fridge or pantry, and I'll extract ingredients from them. Press 'Done' when you're finished.''"

definition msg_send_photos :: string where
  "msg_send_photos = emoji_camera @ '' Please send photos of your fridge or pantry, and I'll extract ingredients from them. Send as many photos as you need, and I'll process each one. Press 'Cancel' if you want to stop.''"

definition msg_more_or_done :: string where
  "msg_more_or_done = ''Would you like to add more ingredients or are you done?''"

definition keyboard_done_photos :: keyboard where
  "keyboard_done_photos = [[(''Done adding photos'', ''done_adding_photos'')]]"

definition keyboard_cancel_photos :: keyboard where
  "keyboard_cancel_photos = [[(''Cancel'', ''cancel_adding_photos'')]]"

definition keyboard_done_or_more :: keyboard where
  "keyboard_done_or_more =
     [[(''Done adding ingredients'', ''done_adding''), (''Add more'', ''add_more'')]]"

text \<open>Lines 288 to 356: the handler of \<^verbatim>\<open>/add_photo\<close>. The photo is the last of the sizes
  of the message, read only when there is one.\<close>

definition add_photo :: "env \<Rightarrow> tg_message \<Rightarrow> event list" where
  "add_photo env message =
     (let chatID = msg_ChatID message
      in SetState chatID StateAddingPhotos #
         (if length (msg_Photo message) > 0
          then
            let photo = last (msg_Photo message);
                processingMsg = message_id_of (sendMessage env chatID msg_processing_photo)
            in SendMessage chatID msg_processing_photo #
               GetFileURL photo #
               (case getFileURL env photo of
                  Inl e \<Rightarrow>
                    [LogError (''Failed to get photo URL: '' @ e),
                     SendMessage chatID msg_photo_failed]
                | Inr photoURL \<Rightarrow>
                    ExtractIngredientsFromPhoto photoURL #
                    (case extractIngredientsFromPhoto env photoURL of
                       Inl e \<Rightarrow>
                         [LogError (''Failed to extract ingredients from photo: '' @ e),
                          SendMessage chatID msg_photo_unreadable]
                     | Inr ingredients \<Rightarrow>
                         if length ingredients = 0 then [SendMessage chatID msg_photo_nothing]
                         else
                           add_ingredients env chatID ingredients @
                           [EditMessage chatID processingMsg (msg_photo_found ingredients),
                            Send (MessageConfig chatID msg_more_photos keyboard_done_photos)]))
          else [Send (MessageConfig chatID msg_send_photos keyboard_cancel_photos)]))"

section \<open>The default handler\<close>

definition msg_use_add_photo :: string where
  "msg_use_add_photo = ''I see you sent a photo! If you want me to extract ingredients from it, please use the /add_photo command.''"

definition msg_text_unreadable :: string where
  "msg_text_unreadable = emoji_cry @ '' Sorry, I couldn't understand the ingredients. Please try again with a clearer list.''"

definition msg_text_nothing :: string where
  "msg_text_nothing = ''I couldn't find any ingredients in your message. Please try again with a list of ingredients.''"

definition msg_text_added :: "string list \<Rightarrow> string" where
  "msg_text_added ingredients =
     emoji_check @ '' Added '' @ sprint_d (int (length ingredients))
       @ '' ingredients to your fridge: '' @ join ingredients '', ''"

definition msg_use_suggest :: string where
  "msg_use_suggest = emoji_fork @ '' Please use the /suggest command followed by a dish name, like: /suggest Lasagna''"

definition msg_single_failed :: "string \<Rightarrow> string" where
  "msg_single_failed text = emoji_cry @ '' Sorry, I couldn't add '' @ text @ '' to your fridge.''"

definition msg_single_added :: "string \<Rightarrow> string" where
  "msg_single_added text = emoji_check @ '' Added '' @ text @ '' to your fridge!''"

text \<open>Lines 483 to 557: a photo that is not a command.\<close>

definition default_photo :: "env \<Rightarrow> state_table \<Rightarrow> tg_message \<Rightarrow> event list" where
  "default_photo env tbl message =
     (let chatID = msg_ChatID message;
          chatState = GetState tbl chatID
      in if chatState = StateAddingIngredients \<or> chatState = StateAddingPhotos
         then
           let photo = last (msg_Photo message);
               processingMsg = message_id_of (sendMessage env chatID msg_processing_photo)
           in SendMessage chatID msg_processing_photo #
              GetFileURL photo #
              (case getFileURL env photo of
                 Inl e \<Rightarrow>
                   [LogError (''Failed to get photo URL: '' @ e),
                    SendMessage chatID msg_photo_failed]
               | Inr photoURL \<Rightarrow>
                   ExtractIngredientsFromPhoto photoURL #
                   (case extractIngredientsFromPhoto env photoURL of
                      Inl e \<Rightarrow>
                        [LogError (''Failed to extract ingredients from photo: '' @ e),
                         SendMessage chatID msg_photo_unreadable]
                    | Inr ingredients \<Rightarrow>
                        if length ingredients = 0 then [SendMessage chatID msg_photo_nothing]
                        else
                          add_ingredients env chatID ingredients @
                          [EditMessage chatID processingMsg (msg_photo_found ingredients),
                           Send (if chatState = StateAddingIngredients
                                 then MessageConfig chatID msg_more_or_done keyboard_done_or_more
                                 else MessageConfig chatID msg_more_photos keyboard_done_photos)]))
         else [SendMessage chatID msg_use_add_photo])"

text \<open>Lines 559 to 619: a text that is not a command.\<close>

definition default_text :: "env \<Rightarrow> state_table \<Rightarrow> tg_message \<Rightarrow> event list" where
  "default_text env tbl message =
     (let chatID = msg_ChatID message;
          text = msg_Text message
      in if GetState tbl chatID = StateAddingIngredients
         then
           ParseIngredientsFromText text #
           (case parseIngredientsFromText env text of
              Inl e \<Rightarrow>
                [LogError (''Failed to parse ingredients: '' @ e),
                 SendMessage chatID msg_text_unreadable]
            | Inr ingredients \<Rightarrow>
                if length ingredients = 0 then [SendMessage chatID msg_text_nothing]
                else
                  add_ingredients env chatID ingredients @
                  [SendMessage chatID (msg_text_added ingredients),
                   Send (MessageConfig chatID msg_more_or_done keyboard_done_or_more)])
         else if GetState tbl chatID = StateSuggestingDish
         then [ClearState chatID, SendMessage chatID msg_use_suggest]
         else if CHR '' '' \<notin> set text \<and> length text < 30
         then
           AddIngredient chatID text [] #
           (case addIngredient env chatID text [] of
              Some e \<Rightarrow>
                [LogError (''Failed to add ingredient: '' @ e),
                 SendMessage chatID (msg_single_failed text)]
            | None \<Rightarrow> [SendMessage chatID (msg_single_added text)])
         else [])"

text \<open>Lines 475 to 620.\<close>

definition defaultHandler :: "env \<Rightarrow> state_table \<Rightarrow> update \<Rightarrow> event list" where
  "defaultHandler env tbl update =
     (case upd_Message update of
        None \<Rightarrow> []
      | Some message \<Rightarrow>
          if length (msg_Photo message) > 0 \<and> \<not> msg_IsCommand message
          then default_photo env tbl message
          else if msg_Text message \<noteq> [] \<and> \<not> msg_IsCommand message
          then default_text env tbl message
          else [])"

section \<open>The suggest command\<close>

definition apostrophe :: string where
  "apostrophe = [CHR 0x27]"

definition msg_looking_up :: "string \<Rightarrow> string" where
  "msg_looking_up args =
     emoji_monocle @ '' Looking up information about '' @ apostrophe @ args @ apostrophe
       @ ''... This might take a moment.''"

definition msg_dish_unknown :: "string \<Rightarrow> string" where
  "msg_dish_unknown args =
     emoji_cry @ '' Sorry, I couldn't find information about '' @ apostrophe @ args @ apostrophe
       @ ''. Please try again with a different dish.''"

definition msg_suggestion_unsaved :: "string \<Rightarrow> string" where
  "msg_suggestion_unsaved args =
     emoji_cry @ '' Sorry, I couldn't save your suggestion for '' @ apostrophe @ args @ apostrophe
       @ ''. Please try again later.''"

definition msg_suggest_usage :: string where
  "msg_suggest_usage = emoji_fork @ '' You can suggest a dish for dinner! Please use the command like this: /suggest Lasagna''"

text \<open>Lines 390 to 405: the needed ingredients, under the key \<^verbatim>\<open>ingredients_needed\<close> or
  else \<^verbatim>\<open>ingredients\<close>; an element that is not a string leaves the empty string.\<close>

definition ingredientsNeeded_of :: "json_map \<Rightarrow> string list" where
  "ingredientsNeeded_of dishInfo =
     (case as_list (dishInfo ''ingredients_needed'') of
        Some ingredientsList \<Rightarrow> map (\<lambda>ing. as_string (Some ing)) ingredientsList
      | None \<Rightarrow>
          (case as_list (dishInfo ''ingredients'') of
             Some ingredientsList \<Rightarrow> map (\<lambda>ing. as_string (Some ing)) ingredientsList
           | None \<Rightarrow> []))"

text \<open>Lines 436 to 457.\<close>

definition suggestion_message :: "suggested_dish \<Rightarrow> string list \<Rightarrow> string list \<Rightarrow> string" where
  "suggestion_message suggestion ingredientsNeeded missingIngredients =
     emoji_check @ '' Thanks for suggesting *'' @ sd_Name suggestion @ ''* (''
       @ sd_Cuisine suggestion @ '' cuisine)!\<newline>\<newline>'' @ sd_Description suggestion
       @ ''\<newline>\<newline>''
       @ (if length ingredientsNeeded > 0
          then ''*Ingredients needed:*\<newline>''
                 @ concat (map (\<lambda>ingredient. bullet @ '' '' @ ingredient @ ''\<newline>'') ingredientsNeeded)
                 @ ''\<newline>''
          else [])
       @ (if length missingIngredients > 0
          then ''*Missing from your fridge:*\<newline>''
                 @ concat (map (\<lambda>ingredient. bullet @ '' '' @ ingredient @ ''\<newline>'') missingIngredients)
                 @ ''\<newline>''
          else [])
       @ ''Your suggestion will be included in future dinner polls.''"

text \<open>Lines 357 to 465: the handler of \<^verbatim>\<open>/suggest\<close>. Its first statement reads
  \<^verbatim>\<open>message.From.ID\<close>.\<close>

definition suggest :: "env \<Rightarrow> tg_message \<Rightarrow> panic + event list" where
  "suggest env message =
     (case msg_From message of
        None \<Rightarrow> Inl NilPointerDereference
      | Some sender \<Rightarrow>
          Inr (let chatID = msg_ChatID message;
                   userID = sprint_d (user_ID sender);
                   username = (if user_UserName sender = [] then user_FirstName sender
                               else user_UserName sender);
                   args = msg_CommandArguments message
               in if args \<noteq> []
                  then
                    let processingMsg = message_id_of (sendMessage env chatID (msg_looking_up args))
                    in SendMessage chatID (msg_looking_up args) #
                       GetDishInfo args #
                       (case getDishInfo env args of
                          Inl e \<Rightarrow>
                            [LogError (''Failed to get dish info: '' @ e),
                             EditMessage chatID processingMsg (msg_dish_unknown args)]
                        | Inr dishInfo \<Rightarrow>
                            let dishName = (if as_string (dishInfo ''name'') = [] then args
                                            else as_string (dishInfo ''name''));
                                cuisine = as_string (dishInfo ''cuisine'');
                                description = as_string (dishInfo ''description'');
                                ingredientsNeeded = ingredientsNeeded_of dishInfo;
                                fridgeIngredients = (case listIngredients env chatID of
                                                       Inl e \<Rightarrow> [] | Inr l \<Rightarrow> l);
                                missingIngredients =
                                  (if length fridgeIngredients > 0 \<and> length ingredientsNeeded > 0
                                   then compareIngredients env ingredientsNeeded
                                          (map ing_Name fridgeIngredients)
                                   else [])
                            in ListIngredients chatID #
                               (case listIngredients env chatID of
                                  Inl e \<Rightarrow> [LogError (''Failed to list ingredients: '' @ e)]
                                | Inr l \<Rightarrow> []) @
                               AddSuggestion chatID userID username dishName cuisine description #
                               (case addSuggestion env chatID userID username dishName cuisine
                                       description of
                                  Inl e \<Rightarrow>
                                    [LogError (''Failed to add suggestion: '' @ e),
                                     EditMessage chatID processingMsg (msg_suggestion_unsaved args)]
                                | Inr suggestion \<Rightarrow>
                                    [EditMessage chatID processingMsg
                                       (suggestion_message suggestion ingredientsNeeded
                                          missingIngredients)]))
                  else [SendMessage chatID msg_suggest_usage]))"

section \<open>The callback handlers\<close>

definition msg_fridge_still_empty :: string where
  "msg_fridge_still_empty = ''Your fridge is still empty. Try adding ingredients with text or better photos.''"

definition msg_now_dinner :: string where
  "msg_now_dinner = ''You can now use /dinner to get dinner suggestions based on your ingredients!''"

text \<open>Each handler starts with \<^verbatim>\<open>callback.Message.Chat.ID\<close>. The keyboard of the edited
  message is the empty \<^verbatim>\<open>InlineKeyboardMarkup\<close>.\<close>

text \<open>Lines 623 to 636.\<close>

definition done_adding :: "env \<Rightarrow> callback_query \<Rightarrow> panic + event list" where
  "done_adding env callback =
     (case cb_Message callback of
        None \<Rightarrow> Inl NilPointerDereference
      | Some message \<Rightarrow>
          Inr (let chatID = msg_ChatID message
               in [ClearState chatID,
                   AnswerCallbackQuery (cb_ID callback) ''Thanks! Your fridge is now updated.'',
                   Send (EditMessageTextConfig chatID (msg_MessageID message)
                           (emoji_check @ '' Fridge update complete! Use /fridge to see your ingredients or /dinner to get dinner suggestions.'')
                           [])]))"

text \<open>Lines 638 to 650.\<close>

definition add_more :: "env \<Rightarrow> callback_query \<Rightarrow> panic + event list" where
  "add_more env callback =
     (case cb_Message callback of
        None \<Rightarrow> Inl NilPointerDereference
      | Some message \<Rightarrow>
          Inr (let chatID = msg_ChatID message
               in [AnswerCallbackQuery (cb_ID callback) ''Please send more ingredients!'',
                   Send (EditMessageTextConfig chatID (msg_MessageID message)
                           ''Please send more ingredients. I'll add them to your fridge.''
                           [])]))"

text \<open>Lines 652 to 693.\<close>

definition show_fridge :: "env \<Rightarrow> callback_query \<Rightarrow> panic + event list" where
  "show_fridge env callback =
     (case cb_Message callback of
        None \<Rightarrow> Inl NilPointerDereference
      | Some message \<Rightarrow>
          Inr (let chatID = msg_ChatID message
               in AnswerCallbackQuery (cb_ID callback) ''Here's what's in your fridge!'' #
                  Send (EditMessageTextConfig chatID (msg_MessageID message)
                          ''Here's what's in your fridge:'' []) #
                  ListIngredients chatID #
                  (case listIngredients env chatID of
                     Inl e \<Rightarrow>
                       [LogError (''Failed to list ingredients: '' @ e),
                        SendMessage chatID msg_fridge_unavailable]
                   | Inr ingredients \<Rightarrow>
                       if length ingredients = 0 then [SendMessage chatID msg_fridge_is_empty]
                       else [SendMessage chatID (fridge_listing ingredients)])))"

text \<open>Lines 695 to 741.\<close>

definition done_adding_photos :: "env \<Rightarrow> callback_query \<Rightarrow> panic + event list" where
  "done_adding_photos env callback =
     (case cb_Message callback of
        None \<Rightarrow> Inl NilPointerDereference
      | Some message \<Rightarrow>
          Inr (let chatID = msg_ChatID message
               in ClearState chatID #
                  AnswerCallbackQuery (cb_ID callback)
                    ''Thanks! Your fridge is now updated with ingredients from your photos.'' #
                  Send (EditMessageTextConfig chatID (msg_MessageID message)
                          (emoji_check @ '' Photo processing complete! I've added all the ingredients I found to your fridge.'')
                          []) #
                  ListIngredients chatID #
                  (case listIngredients env chatID of
                     Inl e \<Rightarrow> [LogError (''Failed to list ingredients: '' @ e)]
                   | Inr ingredients \<Rightarrow>
                       if length ingredients = 0 then [SendMessage chatID msg_fridge_still_empty]
                       else [SendMessage chatID (fridge_listing ingredients),
                             SendMessage chatID msg_now_dinner])))"

text \<open>Lines 743 to 756.\<close>

definition cancel_adding_photos :: "env \<Rightarrow> callback_query \<Rightarrow> panic + event list" where
  "cancel_adding_photos env callback =
     (case cb_Message callback of
        None \<Rightarrow> Inl NilPointerDereference
      | Some message \<Rightarrow>
          Inr (let chatID = msg_ChatID message
               in [ClearState chatID,
                   AnswerCallbackQuery (cb_ID callback) ''Photo adding cancelled.'',
                   Send (EditMessageTextConfig chatID (msg_MessageID message)
                           ''Photo adding cancelled. You can use /fridge to see your current ingredients or /dinner to get dinner suggestions.''
                           [])]))"

section \<open>The dispatch loop\<close>

type_synonym command_handler = "tg_message \<Rightarrow> panic + event list"
type_synonym callback_handler = "callback_query \<Rightarrow> panic + event list"

text \<open>What a handler called after a log line leaves: the calls made, and the panic that
  ended them if there was one.\<close>

definition logged :: "event \<Rightarrow> panic + event list \<Rightarrow> event list \<times> panic option" where
  "logged l r = (case r of Inl p \<Rightarrow> ([l], Some p) | Inr es \<Rightarrow> (l # es, None))"

text \<open>
  Lines 72 to 82 of \<^verbatim>\<open>Bot.Start\<close>: \<^verbatim>\<open>for prefix, handler := range callbackHandlers\<close>.
  Go visits the entries of a map in an order it does not fix; the list is the entries in the
  order this loop visits them. The first entry whose key is a prefix of the data
  (\<^verbatim>\<open>len(data) >= len(prefix) && data[:len(prefix)] == prefix\<close>) has its handler called, and
  the loop breaks.
\<close>

definition tag_matches :: "string \<Rightarrow> string \<Rightarrow> bool" where
  "tag_matches prefix data = (length data \<ge> length prefix \<and> take (length prefix) data = prefix)"

fun dispatch_callback :: "(string \<times> callback_handler) list \<Rightarrow> callback_query \<Rightarrow> event list \<times> panic option" where
  "dispatch_callback [] cq = ([], None)"
| "dispatch_callback ((prefix, handler) # rest) cq =
     (let data = cb_Data cq
      in if tag_matches prefix data
         then logged (LogInfo (''Handling callback: '' @ data @ '' from user ''
                                 @ user_UserName (cb_From cq)))
                (handler cq)
         else dispatch_callback rest cq)"

text \<open>
  Lines 48 to 88 of \<^verbatim>\<open>Bot.Start\<close>: the body of the loop over the updates, for one update.
  The three parameters are those of \<^verbatim>\<open>Start\<close>: the command handlers, a Go map looked up
  by key, the callback handlers and the default handler, which may be \<^verbatim>\<open>nil\<close>. The logger
  the loop replaces per chat is not modelled; its lines are events.
\<close>

definition Start_step ::
  "(string \<rightharpoonup> command_handler) \<Rightarrow> (string \<times> callback_handler) list
     \<Rightarrow> (update \<Rightarrow> event list) option \<Rightarrow> update \<Rightarrow> event list \<times> panic option" where
  "Start_step cmdHandlers cbHandlers dfltHandler update =
     (if upd_Message update = None
         \<and> (case upd_CallbackQuery update of None \<Rightarrow> False | Some cq \<Rightarrow> cb_Message cq = None)
      then ([], Some NilPointerDereference)
      else
        case (case upd_Message update of
                None \<Rightarrow> None
              | Some message \<Rightarrow>
                  if msg_IsCommand message
                  then map_option (Pair message) (cmdHandlers (msg_Command message))
                  else None) of
          Some (message, handler) \<Rightarrow>
            (case msg_From message of
               None \<Rightarrow> ([], Some NilPointerDereference)
             | Some sender \<Rightarrow>
                 logged (LogInfo (''Handling command: '' @ msg_Command message @ '' from user ''
                                    @ user_UserName sender))
                   (handler message))
        | None \<Rightarrow>
            (case upd_CallbackQuery update of
               Some cq \<Rightarrow> dispatch_callback cbHandlers cq
             | None \<Rightarrow>
                 (case dfltHandler of
                    Some h \<Rightarrow> (h update, None)
                  | None \<Rightarrow> ([], None))))"

text \<open>Lines 72 to 467 of \<^verbatim>\<open>main\<close>: the command handlers registered.\<close>

definition commandHandlers :: "env \<Rightarrow> config \<Rightarrow> string \<rightharpoonup> command_handler" where
  "commandHandlers env cfg =
     [''start'' \<mapsto> (\<lambda>m. Inr (start env m)),
      ''dinner'' \<mapsto> (\<lambda>m. Inr (dinner env cfg m)),
      ''fridge'' \<mapsto> (\<lambda>m. Inr (fridge env m)),
      ''sync_fridge'' \<mapsto> (\<lambda>m. Inr (sync_fridge env m)),
      ''show_fridge'' \<mapsto> (\<lambda>m. Inr (fridge env m)),
      ''add_photo'' \<mapsto> (\<lambda>m. Inr (add_photo env m)),
      ''suggest'' \<mapsto> suggest env]"

text \<open>Lines 470 to 756 of \<^verbatim>\<open>main\<close>: the callback handlers registered, in the order of
  the assignments.\<close>

definition callbackHandlers :: "env \<Rightarrow> (string \<times> callback_handler) list" where
  "callbackHandlers env =
     [(''done_adding'', done_adding env),
      (''add_more'', add_more env),
      (''show_fridge'', show_fridge env),
      (''done_adding_photos'', done_adding_photos env),
      (''cancel_adding_photos'', cancel_adding_photos env)]"

text \<open>Line 771: one update handled by the bot as \<^verbatim>\<open>main\<close> starts it, when the loop over the
  callback handlers visits them in the order \<open>visited\<close>, a rearrangement of the registered
  entries.\<close>

definition bot_step ::
  "env \<Rightarrow> config \<Rightarrow> (string \<times> callback_handler) list \<Rightarrow> state_table \<Rightarrow> update
     \<Rightarrow> event list \<times> panic option" where
  "bot_step env cfg visited tbl update =
     Start_step (commandHandlers env cfg) visited (Some (defaultHandler env tbl)) update"

section \<open>Observations on the calls of a handler\<close>

text \<open>The option lists of the polls a handler asks the transport to create.\<close>

fun poll_of :: "event \<Rightarrow> string list list" where
  "poll_of (CreatePoll c q opts) = [opts]"
| "poll_of _ = []"

definition poll_options :: "event list \<Rightarrow> string list list" where
  "poll_options tr = concat (map poll_of tr)"

text \<open>The numbers of candidates a handler asks the Advisor for.\<close>

fun advisor_count_of :: "event \<Rightarrow> int list" where
  "advisor_count_of (SuggestDinnerOptions names cuisines n) = [n]"
| "advisor_count_of _ = []"

definition advisor_counts :: "event list \<Rightarrow> int list" where
  "advisor_counts tr = concat (map advisor_count_of tr)"

fun is_CreatePoll :: "event \<Rightarrow> bool" where
  "is_CreatePoll (CreatePoll c q opts) = True"
| "is_CreatePoll _ = False"

text \<open>The calls to the OpenAI client.\<close>

fun is_advisor_call :: "event \<Rightarrow> bool" where
  "is_advisor_call (SuggestDinnerOptions names cuisines n) = True"
| "is_advisor_call (ExtractIngredientsFromPhoto u) = True"
| "is_advisor_call (ParseIngredientsFromText t) = True"
| "is_advisor_call (GetDishInfo n) = True"
| "is_advisor_call _ = False"

text \<open>The calls made before the first request for a poll.\<close>

definition before_poll :: "event list \<Rightarrow> event list" where
  "before_poll tr = takeWhile (\<lambda>e. \<not> is_CreatePoll e) tr"

definition at_least_two :: "string list \<Rightarrow> bool" where
  "at_least_two opts = (2 \<le> length opts)"

text \<open>The calls that change the state manager's table.\<close>

fun is_state_change :: "event \<Rightarrow> bool" where
  "is_state_change (SetState c s) = True"
| "is_state_change (ClearState c) = True"
| "is_state_change _ = False"

text \<open>The upserts into the fridge: chat, name and quantity of every \<^verbatim>\<open>AddIngredient\<close>.\<close>

fun upsert_of :: "event \<Rightarrow> (int \<times> string \<times> string) list" where
  "upsert_of (AddIngredient c n q) = [(c, n, q)]"
| "upsert_of _ = []"

definition upserts :: "event list \<Rightarrow> (int \<times> string \<times> string) list" where
  "upserts tr = concat (map upsert_of tr)"

text \<open>
  What an ingestion leaves, given the reply of the OpenAI client: on an error, no upsert and
  the message for a failure sent to the chat; on an empty list, no upsert and the message for
  an empty reading sent to the chat; otherwise one upsert per name, in order, with an empty
  quantity.
\<close>

definition ingestion_outcome ::
  "int \<Rightarrow> string \<Rightarrow> string \<Rightarrow> err + string list \<Rightarrow> event list \<Rightarrow> bool" where
  "ingestion_outcome c failed_msg nothing_msg reply tr =
     (case reply of
        Inl e \<Rightarrow> upserts tr = [] \<and> SendMessage c failed_msg \<in> set tr
      | Inr names \<Rightarrow>
          if names = [] then upserts tr = [] \<and> SendMessage c nothing_msg \<in> set tr
          else upserts tr = map (\<lambda>n. (c, n, [])) names)"

fun is_AddSuggestion :: "event \<Rightarrow> bool" where
  "is_AddSuggestion (AddSuggestion c u n d cu de) = True"
| "is_AddSuggestion _ = False"

text \<open>The texts with which a callback query is answered.\<close>

fun answer_of :: "string \<Rightarrow> event \<Rightarrow> string list" where
  "answer_of i (AnswerCallbackQuery j t) = (if i = j then [t] else [])"
| "answer_of i _ = []"

definition answers :: "string \<Rightarrow> event list \<Rightarrow> string list" where
  "answers i tr = concat (map (answer_of i) tr)"

text \<open>The name the second loop of the merge reads from a candidate.\<close>

definition ai_name :: "json_map \<Rightarrow> string" where
  "ai_name s = as_string (s ''name'')"

text \<open>The calls of one round of the first loop of the merge.\<close>

definition mark_events :: "env \<Rightarrow> suggested_dish \<Rightarrow> event list" where
  "mark_events env s =
     MarkAsUsed (sd_ID s) #
       (case markAsUsed env (sd_ID s) of
          Some e \<Rightarrow> [LogError (''Failed to mark suggestion as used: '' @ e)]
        | None \<Rightarrow> [])"

text \<open>The calls of the merge after the request for the poll.\<close>

definition after_poll :: "env \<Rightarrow> int \<Rightarrow> string list \<Rightarrow> event list" where
  "after_poll env chatID opts =
     (case createPoll env chatID poll_question opts of
        Inl e \<Rightarrow> [LogError (''Failed to create poll: '' @ e), GenerateErrorMessage ''create poll'',
                  SendMessage chatID (generateErrorMessage env ''create poll'')]
      | Inr pollMsg \<Rightarrow>
          CreateVote chatID (sprint_d pollMsg) pollMsg opts #
          (case createVote env chatID (sprint_d pollMsg) pollMsg opts of
             Some e \<Rightarrow> [LogError (''Failed to create vote state: '' @ e)]
           | None \<Rightarrow> []) @
          [SendMessage chatID msg_please_vote])"

section \<open>A chat to run the handlers in\<close>

text \<open>A fridge with tomato and pasta, one unused suggestion, and collaborators that all
  succeed; the scenarios below change one reply at a time.\<close>

definition tomato :: ingredient where
  "tomato = \<lparr>ing_Name = ''Tomato'', ing_Quantity = []\<rparr>"

definition pasta :: ingredient where
  "pasta = \<lparr>ing_Name = ''Pasta'', ing_Quantity = []\<rparr>"

definition carbonara :: suggested_dish where
  "carbonara = \<lparr>sd_ID = ''s1'', sd_Name = ''Carbonara'', sd_Cuisine = ''Italian'',
                 sd_Description = ''Pasta with eggs and bacon'', sd_Username = ''anna''\<rparr>"

definition candidate :: "string \<Rightarrow> json_map" where
  "candidate n = [''name'' \<mapsto> JString n, ''cuisine'' \<mapsto> JString ''European'',
                  ''description'' \<mapsto> JString ''A dish'']"

definition family_env :: env where
  "family_env =
     \<lparr>listIngredients = (\<lambda>c. Inr [tomato, pasta]),
      resetFridge = (\<lambda>c. None),
      addIngredient = (\<lambda>c n q. None),
      getUnusedSuggestions = (\<lambda>c. Inr [carbonara]),
      markAsUsed = (\<lambda>i. None),
      addSuggestion = (\<lambda>c u n d cu de.
         Inr \<lparr>sd_ID = ''s2'', sd_Name = d, sd_Cuisine = cu, sd_Description = de,
              sd_Username = n\<rparr>),
      suggestDinnerOptions = (\<lambda>names cuisines n.
         Inr (take (nat n) [candidate ''Soup'', candidate ''Salad'', candidate ''Pizza'',
                            candidate ''Stew''])),
      extractIngredientsFromPhoto = (\<lambda>u. Inr [''Milk'', ''Butter'']),
      parseIngredientsFromText = (\<lambda>t. Inr [''Eggs'', ''Flour'']),
      getDishInfo = (\<lambda>n. Inr (candidate n)),
      compareIngredients = (\<lambda>needed have. filter (\<lambda>x. x \<notin> set have) needed),
      generateWelcomeMessage = ''Welcome'',
      generateErrorMessage = (\<lambda>a. ''Could not '' @ a),
      sendMessage = (\<lambda>c t. Inr 7),
      createPoll = (\<lambda>c q opts. Inr 8),
      createVote = (\<lambda>c p m opts. None),
      getFileURL = (\<lambda>f. Inr (''https://files/'' @ f))\<rparr>"

definition family_cfg :: config where
  "family_cfg = \<lparr>Cuisines = [''European'', ''Russian'', ''Italian'']\<rparr>"

definition anna :: user where
  "anna = \<lparr>user_ID = 42, user_UserName = ''anna'', user_FirstName = ''Anna''\<rparr>"

definition command_message :: "string \<Rightarrow> string \<Rightarrow> tg_message" where
  "command_message command args =
     \<lparr>msg_MessageID = 5, msg_ChatID = 1, msg_From = Some anna,
      msg_Text = CHR ''/'' # command @ (if args = [] then [] else CHR '' '' # args),
      msg_Photo = [], msg_IsCommand = True, msg_Command = command,
      msg_CommandArguments = args\<rparr>"

text \<open>The family chat with an empty fridge.\<close>

definition empty_fridge_env :: env where
  "empty_fridge_env = family_env\<lparr>listIngredients := (\<lambda>c. Inr [])\<rparr>"

text \<open>The family chat when the OpenAI client fails to suggest dishes.\<close>

definition advisor_down_env :: env where
  "advisor_down_env = family_env\<lparr>suggestDinnerOptions := (\<lambda>names cuisines n. Inl ''timeout'')\<rparr>"

text \<open>The family chat when the transport refuses the poll.\<close>

definition poll_refused_env :: env where
  "poll_refused_env = family_env\<lparr>createPoll := (\<lambda>c q opts. Inl ''Bad Request'')\<rparr>"

text \<open>The family chat with eleven unused suggestions.\<close>

definition crowded_env :: env where
  "crowded_env = family_env\<lparr>getUnusedSuggestions := (\<lambda>c. Inr (replicate 11 carbonara))\<rparr>"

text \<open>The family chat when the fridge service fails to reset.\<close>

definition reset_fails_env :: env where
  "reset_fails_env = family_env\<lparr>resetFridge := (\<lambda>c. Some ''disk full'')\<rparr>"

text \<open>The family chat when the OpenAI client fails to describe a dish.\<close>

definition dish_unknown_env :: env where
  "dish_unknown_env = family_env\<lparr>getDishInfo := (\<lambda>n. Inl ''timeout'')\<rparr>"

text \<open>The family chat when the OpenAI client fails to read ingredients, and when it reads
  none.\<close>

definition reader_down_env :: env where
  "reader_down_env = family_env\<lparr>parseIngredientsFromText := (\<lambda>t. Inl ''timeout''),
                                extractIngredientsFromPhoto := (\<lambda>u. Inl ''timeout'')\<rparr>"

definition reader_blank_env :: env where
  "reader_blank_env = family_env\<lparr>parseIngredientsFromText := (\<lambda>t. Inr []),
                                 extractIngredientsFromPhoto := (\<lambda>u. Inr [])\<rparr>"

text \<open>The family chat when every upsert into the fridge fails.\<close>

definition fridge_readonly_env :: env where
  "fridge_readonly_env = family_env\<lparr>addIngredient := (\<lambda>c n q. Some ''read only'')\<rparr>"

definition text_message :: "string \<Rightarrow> tg_message" where
  "text_message t =
     \<lparr>msg_MessageID = 5, msg_ChatID = 1, msg_From = Some anna, msg_Text = t, msg_Photo = [],
      msg_IsCommand = False, msg_Command = [], msg_CommandArguments = []\<rparr>"

definition photo_message :: tg_message where
  "photo_message =
     \<lparr>msg_MessageID = 5, msg_ChatID = 1, msg_From = Some anna, msg_Text = [],
      msg_Photo = [''small'', ''large''], msg_IsCommand = False, msg_Command = [],
      msg_CommandArguments = []\<rparr>"

definition photo_command :: tg_message where
  "photo_command =
     \<lparr>msg_MessageID = 5, msg_ChatID = 1, msg_From = Some anna, msg_Text = ''/add_photo'',
      msg_Photo = [''small'', ''large''], msg_IsCommand = True, msg_Command = ''add_photo'',
      msg_CommandArguments = []\<rparr>"

definition message_update :: "tg_message \<Rightarrow> update" where
  "message_update m = \<lparr>upd_Message = Some m, upd_CallbackQuery = None\<rparr>"

text \<open>A press of a button with the given data, under a message the bot sent to the chat.\<close>

definition button_press :: "string \<Rightarrow> update" where
  "button_press d =
     \<lparr>upd_Message = None,
      upd_CallbackQuery = Some \<lparr>cb_ID = ''q1'', cb_From = anna,
                                cb_Message = Some (text_message msg_more_or_done),
                                cb_Data = d\<rparr>\<rparr>"

definition idle_table :: state_table where
  "idle_table = (\<lambda>c. StateIdle)"

definition adding_table :: state_table where
  "adding_table = (\<lambda>c. StateAddingIngredients)"

section \<open>The merge of the dinner command\<close>

lemma add_user_suggestions_calls:
  "calls (add_user_suggestions env i us st) = calls st @ concat (map (mark_events env) us)"
  by (induction us arbitrary: i st) (auto simp: mark_events_def)

lemma add_user_suggestions_options:
  "i + length us \<le> length (options st) \<Longrightarrow>
   options (add_user_suggestions env i us st) =
     take i (options st) @ map sd_Name us @ drop (i + length us) (options st)"
proof (induction us arbitrary: i st)
  case Nil
  then show ?case by simp
next
  case (Cons s us)
  then show ?case
    by (simp add: take_Suc_conv_app_nth upd_conv_take_nth_drop drop_Suc add.commute)
qed

lemma add_ai_suggestions_calls:
  "calls (add_ai_suggestions n i ai st) = calls st"
  by (induction ai arbitrary: i st) (auto simp: Let_def)

lemma add_ai_suggestions_options:
  "n + i + length ai \<le> length (options st) \<Longrightarrow>
   options (add_ai_suggestions n i ai st) =
     take (n + i) (options st) @ map ai_name ai @ drop (n + i + length ai) (options st)"
proof (induction ai arbitrary: i st)
  case Nil
  then show ?case by simp
next
  case (Cons s ai)
  then show ?case
    by (simp add: Let_def ai_name_def take_Suc_conv_app_nth upd_conv_take_nth_drop drop_Suc
        add.commute)
qed

text \<open>Every slot of the slice allocated for the options is written once: the user
  suggestions fill the first slots, the candidates the rest.\<close>

lemma merged_options:
  "options (add_ai_suggestions (length us) 0 ai
      (add_user_suggestions env 0 us
         \<lparr>options = replicate (length ai + length us) [], dishNames = dn, detailedMsg = dm,
          calls = cs\<rparr>)) = map sd_Name us @ map ai_name ai"
  by (simp add: add_ai_suggestions_options add_user_suggestions_options)

lemma dinner_merge_events:
  assumes "us \<noteq> [] \<or> ai \<noteq> []"
  shows "\<exists>msg. dinner_merge env chatID pm us ai =
     concat (map (mark_events env) us) @
     [EditMessage chatID pm msg,
      CreatePoll chatID poll_question (map sd_Name us @ map ai_name ai)] @
     after_poll env chatID (map sd_Name us @ map ai_name ai)"
  using assms
  by (auto simp: dinner_merge_def Let_def merged_options add_ai_suggestions_calls
      add_user_suggestions_calls after_poll_def split: sum.splits option.splits)

lemma dinner_merge_empty:
  "dinner_merge env chatID pm [] [] = [EditMessage chatID pm msg_no_dishes]"
  by (simp add: dinner_merge_def)

lemma poll_options_append [simp]: "poll_options (xs @ ys) = poll_options xs @ poll_options ys"
  by (simp add: poll_options_def)

lemma poll_options_Cons [simp]: "poll_options (x # xs) = poll_of x @ poll_options xs"
  by (simp add: poll_options_def)

lemma poll_options_Nil [simp]: "poll_options [] = []"
  by (simp add: poll_options_def)

lemma advisor_counts_append [simp]:
  "advisor_counts (xs @ ys) = advisor_counts xs @ advisor_counts ys"
  by (simp add: advisor_counts_def)

lemma advisor_counts_Cons [simp]: "advisor_counts (x # xs) = advisor_count_of x @ advisor_counts xs"
  by (simp add: advisor_counts_def)

lemma advisor_counts_Nil [simp]: "advisor_counts [] = []"
  by (simp add: advisor_counts_def)

lemma poll_options_marks [simp]: "poll_options (concat (map (mark_events env) us)) = []"
  by (induction us) (auto simp: mark_events_def split: option.splits)

lemma advisor_counts_marks [simp]: "advisor_counts (concat (map (mark_events env) us)) = []"
  by (induction us) (auto simp: mark_events_def split: option.splits)

lemma poll_options_after_poll [simp]: "poll_options (after_poll env c opts) = []"
  by (auto simp: after_poll_def split: sum.splits option.splits)

lemma advisor_counts_after_poll [simp]: "advisor_counts (after_poll env c opts) = []"
  by (auto simp: after_poll_def split: sum.splits option.splits)

lemma marks_no_poll: "e \<in> set (concat (map (mark_events env) us)) \<Longrightarrow> \<not> is_CreatePoll e"
  by (induction us) (auto simp: mark_events_def split: option.splits)

lemma marks_all: "s \<in> set us \<Longrightarrow> MarkAsUsed (sd_ID s) \<in> set (concat (map (mark_events env) us))"
  by (induction us) (auto simp: mark_events_def)

lemma poll_options_dinner_merge:
  "poll_options (dinner_merge env c pm us ai) =
     (if us = [] \<and> ai = [] then [] else [map sd_Name us @ map ai_name ai])"
proof (cases "us = [] \<and> ai = []")
  case True
  then show ?thesis by (simp add: dinner_merge_empty)
next
  case False
  then obtain msg where "dinner_merge env c pm us ai =
     concat (map (mark_events env) us) @
     [EditMessage c pm msg, CreatePoll c poll_question (map sd_Name us @ map ai_name ai)] @
     after_poll env c (map sd_Name us @ map ai_name ai)"
    using dinner_merge_events [of us ai env c pm] by blast
  with False show ?thesis by simp
qed

lemma advisor_counts_dinner_merge: "advisor_counts (dinner_merge env c pm us ai) = []"
proof (cases "us = [] \<and> ai = []")
  case True
  then show ?thesis by (simp add: dinner_merge_empty)
next
  case False
  then obtain msg where "dinner_merge env c pm us ai =
     concat (map (mark_events env) us) @
     [EditMessage c pm msg, CreatePoll c poll_question (map sd_Name us @ map ai_name ai)] @
     after_poll env c (map sd_Name us @ map ai_name ai)"
    using dinner_merge_events [of us ai env c pm] by blast
  then show ?thesis by simp
qed

lemma before_poll_clean_prefix:
  "\<forall>e\<in>set pre. \<not> is_CreatePoll e \<Longrightarrow> before_poll (pre @ xs) = pre @ before_poll xs"
  by (simp add: before_poll_def takeWhile_append)

lemma before_poll_dinner_merge:
  assumes "us \<noteq> [] \<or> ai \<noteq> []" and "s \<in> set us"
  shows "MarkAsUsed (sd_ID s) \<in> set (before_poll (dinner_merge env c pm us ai))"
proof -
  obtain msg where m: "dinner_merge env c pm us ai =
     concat (map (mark_events env) us) @
     [EditMessage c pm msg, CreatePoll c poll_question (map sd_Name us @ map ai_name ai)] @
     after_poll env c (map sd_Name us @ map ai_name ai)"
    using dinner_merge_events [of us ai env c pm] assms by blast
  have "before_poll (dinner_merge env c pm us ai) =
          concat (map (mark_events env) us) @ before_poll ([EditMessage c pm msg,
            CreatePoll c poll_question (map sd_Name us @ map ai_name ai)] @
            after_poll env c (map sd_Name us @ map ai_name ai))"
    unfolding m by (rule before_poll_clean_prefix) (use marks_no_poll in blast)
  with marks_all [OF assms(2), of env] show ?thesis by simp
qed

text \<open>The polls of the dinner command, for every reply of the suggestion service and of the
  OpenAI client: a failed reply counts as an empty list.\<close>

lemma poll_options_dinner:
  assumes "listIngredients env (msg_ChatID message) = Inr ingredients"
    and "ingredients \<noteq> []"
    and "unused = (case getUnusedSuggestions env (msg_ChatID message) of Inl e \<Rightarrow> [] | Inr l \<Rightarrow> l)"
    and "candidates = (case suggestDinnerOptions env (map ing_Name ingredients) (Cuisines cfg)
                          (computeAiSuggestionCount (length unused)) of Inl e \<Rightarrow> [] | Inr l \<Rightarrow> l)"
  shows "poll_options (dinner env cfg message) =
           (if unused = [] \<and> candidates = [] then []
            else [map sd_Name unused @ map ai_name candidates])"
  using assms
  by (auto simp: dinner_def Let_def userSuggestions_of_def poll_options_dinner_merge
      split: sum.splits)

lemma family_fridge: "listIngredients family_env c = Inr [tomato, pasta]"
  by (simp add: family_env_def)

lemma family_unused: "getUnusedSuggestions family_env c = Inr [carbonara]"
  by (simp add: family_env_def)

lemma advisor_down_fridge: "listIngredients advisor_down_env c = Inr [tomato, pasta]"
  by (simp add: advisor_down_env_def family_env_def)

lemma advisor_down_unused: "getUnusedSuggestions advisor_down_env c = Inr [carbonara]"
  by (simp add: advisor_down_env_def family_env_def)

lemma crowded_fridge: "listIngredients crowded_env c = Inr [tomato, pasta]"
  by (simp add: crowded_env_def family_env_def)

lemma advisor_down_reply: "suggestDinnerOptions advisor_down_env names cuisines n = Inl ''timeout''"
  by (simp add: advisor_down_env_def family_env_def)

section \<open>Claims about the dinner command\<close>

lemma empty_fridge_reply: "listIngredients empty_fridge_env c = Inr []"
  by (simp add: empty_fridge_env_def family_env_def)

lemma poll_refused_fridge: "listIngredients poll_refused_env c = Inr [tomato, pasta]"
  by (simp add: poll_refused_env_def family_env_def)

lemma poll_refused_unused: "getUnusedSuggestions poll_refused_env c = Inr [carbonara]"
  by (simp add: poll_refused_env_def family_env_def)

lemma poll_refused_reply: "createPoll poll_refused_env c q opts = Inl ''Bad Request''"
  by (simp add: poll_refused_env_def family_env_def)

text \<open>
  C2. When the fridge is not empty, the dinner command asks the OpenAI client once, and the
  number of candidates it asks for is \<open>max 2 (4 - n)\<close> when the suggestion service returned
  \<open>n > 0\<close> unused suggestions and 4 when it returned none; with one unused suggestion it
  asks for 3.
\<close>

theorem dinner_ai_count:
  assumes "listIngredients env (msg_ChatID message) = Inr ingredients"
    and "ingredients \<noteq> []"
    and "getUnusedSuggestions env (msg_ChatID message) = Inr unused"
  shows "advisor_counts (dinner env cfg message) =
           [if unused \<noteq> [] then max 2 (4 - int (length unused)) else 4]
         \<and> (length unused = 1 \<longrightarrow> advisor_counts (dinner env cfg message) = [3])"
  using assms
  by (auto simp: dinner_def Let_def userSuggestions_of_def computeAiSuggestionCount_def
      advisor_counts_dinner_merge split: sum.splits)

theorem dinner_ai_count_witness:
  "listIngredients family_env (msg_ChatID (command_message ''dinner'' [])) = Inr [tomato, pasta]
   \<and> [tomato, pasta] \<noteq> []
   \<and> getUnusedSuggestions family_env (msg_ChatID (command_message ''dinner'' [])) = Inr [carbonara]
   \<and> length [carbonara] = 1
   \<and> advisor_counts (dinner family_env family_cfg (command_message ''dinner'' [])) = [3]"
  using dinner_ai_count [where env = family_env and message = "command_message ''dinner'' []"
      and cfg = family_cfg and ingredients = "[tomato, pasta]" and unused = "[carbonara]"]
  by (simp add: family_fridge family_unused)

text \<open>When the suggestion service fails, the handler goes on as with no suggestion.\<close>

lemma pool_failure_asks_for_four:
  assumes "listIngredients env (msg_ChatID message) = Inr ingredients"
    and "ingredients \<noteq> []"
    and "getUnusedSuggestions env (msg_ChatID message) = Inl e"
  shows "advisor_counts (dinner env cfg message) = [4]"
  using assms
  by (auto simp: dinner_def Let_def userSuggestions_of_def computeAiSuggestionCount_def
      advisor_counts_dinner_merge split: sum.splits)

text \<open>
  C7. On an empty fridge the dinner command makes two calls, the reading of the fridge and the
  sending of the message that the fridge is empty: it requests no poll and calls the OpenAI
  client for nothing.
\<close>

theorem dinner_empty_fridge:
  assumes "listIngredients env (msg_ChatID message) = Inr []"
  shows "dinner env cfg message =
           [ListIngredients (msg_ChatID message), SendMessage (msg_ChatID message) msg_fridge_empty]
         \<and> poll_options (dinner env cfg message) = []
         \<and> filter is_advisor_call (dinner env cfg message) = []"
  using assms by (simp add: dinner_def Let_def)

theorem dinner_empty_fridge_witness:
  "listIngredients empty_fridge_env (msg_ChatID (command_message ''dinner'' [])) = Inr []
   \<and> dinner empty_fridge_env family_cfg (command_message ''dinner'' []) =
       [ListIngredients 1, SendMessage 1 msg_fridge_empty]
   \<and> poll_options (dinner empty_fridge_env family_cfg (command_message ''dinner'' [])) = []
   \<and> filter is_advisor_call (dinner empty_fridge_env family_cfg (command_message ''dinner'' [])) = []"
  using dinner_empty_fridge [where env = empty_fridge_env
      and message = "command_message ''dinner'' []" and cfg = family_cfg]
  by (simp add: empty_fridge_reply command_message_def)

text \<open>
  C4. The options of the poll that the dinner command requests are the names of the unused
  user suggestions, in the order the suggestion service returned them, followed by the names
  of the candidates of the OpenAI client, in their order; a failed reply of either counts as
  no entry, and no poll is requested when both are empty.
\<close>

theorem dinner_options_order:
  assumes "listIngredients env (msg_ChatID message) = Inr ingredients"
    and "ingredients \<noteq> []"
    and "unused = (case getUnusedSuggestions env (msg_ChatID message) of Inl e \<Rightarrow> [] | Inr l \<Rightarrow> l)"
    and "candidates = (case suggestDinnerOptions env (map ing_Name ingredients) (Cuisines cfg)
                          (computeAiSuggestionCount (length unused)) of Inl e \<Rightarrow> [] | Inr l \<Rightarrow> l)"
  shows "poll_options (dinner env cfg message) =
           (if unused = [] \<and> candidates = [] then []
            else [map sd_Name unused @ map ai_name candidates])"
  using assms by (rule poll_options_dinner)

theorem dinner_options_order_witness:
  "listIngredients family_env (msg_ChatID (command_message ''dinner'' [])) = Inr [tomato, pasta]
   \<and> [tomato, pasta] \<noteq> []
   \<and> poll_options (dinner family_env family_cfg (command_message ''dinner'' [])) =
       [[''Carbonara'', ''Soup'', ''Salad'', ''Pizza'']]"
proof -
  have h2: "[tomato, pasta] \<noteq> []" by simp
  have h3: "[carbonara] = (case getUnusedSuggestions family_env
               (msg_ChatID (command_message ''dinner'' [])) of Inl e \<Rightarrow> [] | Inr l \<Rightarrow> l)"
    by (simp add: family_unused)
  have h4: "[candidate ''Soup'', candidate ''Salad'', candidate ''Pizza''] =
              (case suggestDinnerOptions family_env (map ing_Name [tomato, pasta])
                      (Cuisines family_cfg) (computeAiSuggestionCount (length [carbonara])) of
                 Inl e \<Rightarrow> [] | Inr l \<Rightarrow> l)"
    by (simp add: family_env_def computeAiSuggestionCount_def)
  from dinner_options_order [OF family_fridge h2 h3 h4] show ?thesis
    by (simp add: family_fridge carbonara_def ai_name_def candidate_def as_string_def)
qed

text \<open>
  C5. Every unused suggestion that the suggestion service returned has \<^verbatim>\<open>MarkAsUsed\<close>
  called on it before the dinner command requests the poll, whatever the transport then
  answers to the request; and with at least one such suggestion the poll is requested.
\<close>

theorem dinner_marks_before_poll:
  assumes "listIngredients env (msg_ChatID message) = Inr ingredients"
    and "ingredients \<noteq> []"
    and "getUnusedSuggestions env (msg_ChatID message) = Inr unused"
  shows "(\<forall>s \<in> set unused. MarkAsUsed (sd_ID s) \<in> set (before_poll (dinner env cfg message)))
         \<and> (unused \<noteq> [] \<longrightarrow> length (poll_options (dinner env cfg message)) = 1)"
proof (cases "unused = []")
  case True
  then show ?thesis by simp
next
  case False
  let ?c = "msg_ChatID message"
  let ?pm = "message_id_of (sendMessage env ?c msg_thinking)"
  let ?r = "suggestDinnerOptions env (map ing_Name ingredients) (Cuisines cfg)
              (computeAiSuggestionCount (length unused))"
  let ?ai = "case ?r of Inl e \<Rightarrow> [] | Inr l \<Rightarrow> l"
  let ?pre = "[ListIngredients ?c, SendMessage ?c msg_thinking, GetUnusedSuggestions ?c,
               SuggestDinnerOptions (map ing_Name ingredients) (Cuisines cfg)
                 (computeAiSuggestionCount (length unused))] @
              (case ?r of Inl e \<Rightarrow> [LogError (''Failed to get dinner suggestions: '' @ e)]
               | Inr l \<Rightarrow> [])"
  have shape: "dinner env cfg message = ?pre @ dinner_merge env ?c ?pm unused ?ai"
    using assms False
    by (simp add: dinner_def Let_def userSuggestions_of_def split: sum.splits)
  have clean: "\<forall>e\<in>set ?pre. \<not> is_CreatePoll e"
    by (auto split: sum.splits)
  have bp: "before_poll (dinner env cfg message) =
              ?pre @ before_poll (dinner_merge env ?c ?pm unused ?ai)"
    unfolding shape using clean by (rule before_poll_clean_prefix)
  have "\<forall>s \<in> set unused. MarkAsUsed (sd_ID s) \<in> set (before_poll (dinner env cfg message))"
    unfolding bp using before_poll_dinner_merge [of unused ?ai _ env ?c ?pm] False by simp
  moreover have "length (poll_options (dinner env cfg message)) = 1"
    unfolding shape using False by (simp add: poll_options_dinner_merge split: sum.splits)
  ultimately show ?thesis by simp
qed

theorem dinner_marks_before_poll_witness:
  "listIngredients poll_refused_env (msg_ChatID (command_message ''dinner'' [])) = Inr [tomato, pasta]
   \<and> [tomato, pasta] \<noteq> []
   \<and> getUnusedSuggestions poll_refused_env (msg_ChatID (command_message ''dinner'' [])) = Inr [carbonara]
   \<and> createPoll poll_refused_env 1 poll_question [''Carbonara'', ''Soup'', ''Salad'', ''Pizza'']
       = Inl ''Bad Request''
   \<and> carbonara \<in> set [carbonara]
   \<and> MarkAsUsed ''s1'' \<in> set (before_poll (dinner poll_refused_env family_cfg (command_message ''dinner'' [])))
   \<and> length (poll_options (dinner poll_refused_env family_cfg (command_message ''dinner'' []))) = 1"
proof -
  have h2: "[tomato, pasta] \<noteq> []" by simp
  from dinner_marks_before_poll [OF poll_refused_fridge h2 poll_refused_unused,
      where message = "command_message ''dinner'' []" and cfg = family_cfg]
  show ?thesis
    by (simp add: poll_refused_fridge poll_refused_unused poll_refused_reply carbonara_def)
qed

text \<open>
  C3, as the code has it. When the fridge is not empty and the unused suggestions and the
  candidates are not both empty, the dinner command requests exactly one poll, and its options
  are the merged list as it is: one option per unused suggestion and per candidate, so at
  least one, and at least two when the OpenAI client returned at least two candidates. The
  length is the sum of the two lengths, whatever they are: nothing is cut at a ceiling. When
  both lists are empty no poll is requested.
\<close>

theorem dinner_poll_size:
  assumes "listIngredients env (msg_ChatID message) = Inr ingredients"
    and "ingredients \<noteq> []"
    and "unused = (case getUnusedSuggestions env (msg_ChatID message) of Inl e \<Rightarrow> [] | Inr l \<Rightarrow> l)"
    and "candidates = (case suggestDinnerOptions env (map ing_Name ingredients) (Cuisines cfg)
                          (computeAiSuggestionCount (length unused)) of Inl e \<Rightarrow> [] | Inr l \<Rightarrow> l)"
  shows "(unused \<noteq> [] \<or> candidates \<noteq> [] \<longrightarrow>
            poll_options (dinner env cfg message) = [map sd_Name unused @ map ai_name candidates]
            \<and> 1 \<le> length (map sd_Name unused @ map ai_name candidates))
         \<and> (unused = [] \<and> candidates = [] \<longrightarrow> poll_options (dinner env cfg message) = [])
         \<and> length (map sd_Name unused @ map ai_name candidates) = length unused + length candidates
         \<and> (2 \<le> length candidates \<longrightarrow>
              at_least_two (map sd_Name unused @ map ai_name candidates))"
  using poll_options_dinner [OF assms]
  by (auto simp: at_least_two_def Suc_le_eq)

text \<open>The family chat, with four options; and the chat with eleven unused suggestions, where
  the poll is requested with thirteen options.\<close>

theorem dinner_poll_size_witness:
  "poll_options (dinner family_env family_cfg (command_message ''dinner'' []))
     = [[''Carbonara'', ''Soup'', ''Salad'', ''Pizza'']]
   \<and> length [''Carbonara'', ''Soup'', ''Salad'', ''Pizza'']
       = length [carbonara] + length [candidate ''Soup'', candidate ''Salad'', candidate ''Pizza'']
   \<and> at_least_two [''Carbonara'', ''Soup'', ''Salad'', ''Pizza'']
   \<and> poll_options (dinner crowded_env family_cfg (command_message ''dinner'' []))
       = [replicate 11 ''Carbonara'' @ [''Soup'', ''Salad'']]
   \<and> length (replicate 11 ''Carbonara'' @ [''Soup'', ''Salad'']) = 13"
proof -
  have h2: "[tomato, pasta] \<noteq> []" by simp
  have h3: "[carbonara] = (case getUnusedSuggestions family_env
               (msg_ChatID (command_message ''dinner'' [])) of Inl e \<Rightarrow> [] | Inr l \<Rightarrow> l)"
    by (simp add: family_unused)
  have h4: "[candidate ''Soup'', candidate ''Salad'', candidate ''Pizza''] =
              (case suggestDinnerOptions family_env (map ing_Name [tomato, pasta])
                      (Cuisines family_cfg) (computeAiSuggestionCount (length [carbonara])) of
                 Inl e \<Rightarrow> [] | Inr l \<Rightarrow> l)"
    by (simp add: family_env_def computeAiSuggestionCount_def)
  have k3: "replicate 11 carbonara = (case getUnusedSuggestions crowded_env
               (msg_ChatID (command_message ''dinner'' [])) of Inl e \<Rightarrow> [] | Inr l \<Rightarrow> l)"
    by (simp add: crowded_env_def family_env_def)
  have k4: "[candidate ''Soup'', candidate ''Salad''] =
              (case suggestDinnerOptions crowded_env (map ing_Name [tomato, pasta])
                      (Cuisines family_cfg)
                      (computeAiSuggestionCount (length (replicate 11 carbonara))) of
                 Inl e \<Rightarrow> [] | Inr l \<Rightarrow> l)"
    by (simp add: crowded_env_def family_env_def computeAiSuggestionCount_def)
  from dinner_poll_size [OF family_fridge h2 h3 h4] dinner_poll_size [OF crowded_fridge h2 k3 k4]
  show ?thesis
    by (simp add: ai_name_def candidate_def as_string_def carbonara_def at_least_two_def)
qed

text \<open>With one unused suggestion and a failing OpenAI client, the poll is requested with a
  single option.\<close>

theorem dinner_poll_size_counterexample:
  "poll_options (dinner advisor_down_env family_cfg (command_message ''dinner'' [])) = [[''Carbonara'']]
   \<and> \<not> list_all at_least_two
          (poll_options (dinner advisor_down_env family_cfg (command_message ''dinner'' [])))"
proof -
  have h2: "[tomato, pasta] \<noteq> []" by simp
  have h3: "[carbonara] = (case getUnusedSuggestions advisor_down_env
               (msg_ChatID (command_message ''dinner'' [])) of Inl e \<Rightarrow> [] | Inr l \<Rightarrow> l)"
    by (simp add: advisor_down_unused)
  have h4: "[] = (case suggestDinnerOptions advisor_down_env (map ing_Name [tomato, pasta])
                      (Cuisines family_cfg) (computeAiSuggestionCount (length [carbonara])) of
                 Inl e \<Rightarrow> [] | Inr l \<Rightarrow> l)"
    by (simp add: advisor_down_reply)
  have "poll_options (dinner advisor_down_env family_cfg (command_message ''dinner'' [])) =
          [[''Carbonara'']]"
    using poll_options_dinner [OF advisor_down_fridge h2 h3 h4] by (simp add: carbonara_def)
  then show ?thesis by (simp add: at_least_two_def)
qed

section \<open>The claim about the sync_fridge command\<close>

text \<open>
  C6. The sync_fridge command calls the reset of the fridge first. When the reset succeeds, the
  mode of the chat is set to adding ingredients after it, and the chat is told; when the reset
  fails, the handler makes no call to the state manager, and the table of modes is as before.
  The handler never reads the fridge, so this holds for every content of the fridge.
\<close>

theorem sync_fridge_reset_before_mode:
  "(resetFridge env (msg_ChatID message) = None \<longrightarrow>
      sync_fridge env message =
        [ResetFridge (msg_ChatID message),
         SetState (msg_ChatID message) StateAddingIngredients,
         SendMessage (msg_ChatID message) msg_fridge_reset]
      \<and> GetState (apply_events tbl (sync_fridge env message)) (msg_ChatID message)
          = StateAddingIngredients)
   \<and> (resetFridge env (msg_ChatID message) \<noteq> None \<longrightarrow>
        hd (sync_fridge env message) = ResetFridge (msg_ChatID message)
        \<and> filter is_state_change (sync_fridge env message) = []
        \<and> apply_events tbl (sync_fridge env message) = tbl)"
  by (auto simp: sync_fridge_def Let_def apply_events_def GetState_def split: option.splits)

theorem sync_fridge_reset_before_mode_witness:
  "resetFridge family_env (msg_ChatID (command_message ''sync_fridge'' [])) = None
   \<and> sync_fridge family_env (command_message ''sync_fridge'' []) =
        [ResetFridge 1, SetState 1 StateAddingIngredients, SendMessage 1 msg_fridge_reset]
   \<and> GetState (apply_events idle_table (sync_fridge family_env (command_message ''sync_fridge'' []))) 1
        = StateAddingIngredients
   \<and> resetFridge reset_fails_env (msg_ChatID (command_message ''sync_fridge'' [])) \<noteq> None
   \<and> filter is_state_change (sync_fridge reset_fails_env (command_message ''sync_fridge'' [])) = []
   \<and> apply_events idle_table (sync_fridge reset_fails_env (command_message ''sync_fridge'' []))
        = idle_table"
proof -
  have ok: "resetFridge family_env (msg_ChatID (command_message ''sync_fridge'' [])) = None"
    by (simp add: family_env_def)
  have ko: "resetFridge reset_fails_env (msg_ChatID (command_message ''sync_fridge'' [])) \<noteq> None"
    by (simp add: reset_fails_env_def family_env_def)
  have c: "msg_ChatID (command_message ''sync_fridge'' []) = 1"
    by (simp add: command_message_def)
  from sync_fridge_reset_before_mode [of family_env "command_message ''sync_fridge'' []" idle_table]
       sync_fridge_reset_before_mode [of reset_fails_env "command_message ''sync_fridge'' []" idle_table]
       ok ko
  show ?thesis by (simp add: c apply_events_def GetState_def)
qed

section \<open>The claim about the suggest command\<close>

lemma dish_unknown_reply: "getDishInfo dish_unknown_env n = Inl ''timeout''"
  by (simp add: dish_unknown_env_def family_env_def)

lemma dish_unknown_sent: "sendMessage dish_unknown_env c t = Inr 7"
  by (simp add: dish_unknown_env_def family_env_def)

text \<open>
  C1, as the code has it. For a suggest command with a dish name, when the OpenAI client
  fails to describe the dish the handler logs, tells the chat that it found nothing, and
  returns: it never calls the suggestion service. When the OpenAI client answers, the
  handler asks the suggestion service exactly once to add a suggestion for the chat, under
  the name of the answer, or under the name the user gave when the answer has none.
\<close>

theorem suggest_persists_on_enrichment:
  assumes "msg_From message = Some sender"
    and "msg_CommandArguments message = args"
    and "args \<noteq> []"
  shows "(\<forall>e. getDishInfo env args = Inl e \<longrightarrow>
            suggest env message =
              Inr [SendMessage (msg_ChatID message) (msg_looking_up args),
                   GetDishInfo args,
                   LogError (''Failed to get dish info: '' @ e),
                   EditMessage (msg_ChatID message)
                     (message_id_of (sendMessage env (msg_ChatID message) (msg_looking_up args)))
                     (msg_dish_unknown args)])
         \<and> (\<forall>dishInfo. getDishInfo env args = Inr dishInfo \<longrightarrow>
              (\<exists>es. suggest env message = Inr es
                 \<and> filter is_AddSuggestion es =
                     [AddSuggestion (msg_ChatID message) (sprint_d (user_ID sender))
                        (if user_UserName sender = [] then user_FirstName sender
                         else user_UserName sender)
                        (if as_string (dishInfo ''name'') = [] then args
                         else as_string (dishInfo ''name''))
                        (as_string (dishInfo ''cuisine''))
                        (as_string (dishInfo ''description''))]))"
  using assms
  by (auto simp: suggest_def Let_def split: sum.splits)

theorem suggest_persists_on_enrichment_witness:
  "msg_From (command_message ''suggest'' ''Lasagna'') = Some anna
   \<and> msg_CommandArguments (command_message ''suggest'' ''Lasagna'') = ''Lasagna''
   \<and> ''Lasagna'' \<noteq> []
   \<and> getDishInfo dish_unknown_env ''Lasagna'' = Inl ''timeout''
   \<and> suggest dish_unknown_env (command_message ''suggest'' ''Lasagna'') =
        Inr [SendMessage 1 (msg_looking_up ''Lasagna''), GetDishInfo ''Lasagna'',
             LogError ''Failed to get dish info: timeout'',
             EditMessage 1 7 (msg_dish_unknown ''Lasagna'')]
   \<and> getDishInfo family_env ''Lasagna'' = Inr (candidate ''Lasagna'')
   \<and> (\<exists>es. suggest family_env (command_message ''suggest'' ''Lasagna'') = Inr es
         \<and> filter is_AddSuggestion es =
             [AddSuggestion 1 ''42'' ''anna'' ''Lasagna'' ''European'' ''A dish''])"
proof -
  have h1: "msg_From (command_message ''suggest'' ''Lasagna'') = Some anna"
    by (simp add: command_message_def)
  have h2: "msg_CommandArguments (command_message ''suggest'' ''Lasagna'') = ''Lasagna''"
    by (simp add: command_message_def)
  have h3: "''Lasagna'' \<noteq> []" by simp
  have c: "msg_ChatID (command_message ''suggest'' ''Lasagna'') = 1"
    by (simp add: command_message_def)
  have ok: "getDishInfo family_env ''Lasagna'' = Inr (candidate ''Lasagna'')"
    by (simp add: family_env_def)
  have n: "sprint_d 42 = ''42''"
    by (simp add: sprint_d_def string_of_nat.simps digit_char_def)
  from suggest_persists_on_enrichment [OF h1 h2 h3, of dish_unknown_env]
       suggest_persists_on_enrichment [OF h1 h2 h3, of family_env]
  show ?thesis
    by (simp add: h1 h2 c ok n dish_unknown_reply dish_unknown_sent message_id_of_def
        anna_def candidate_def as_string_def)
qed

text \<open>The OpenAI client fails: the four calls of the handler, none of them to the
  suggestion service.\<close>

theorem suggest_enrichment_failure_counterexample:
  "suggest dish_unknown_env (command_message ''suggest'' ''Lasagna'') =
     Inr [SendMessage 1 (msg_looking_up ''Lasagna''), GetDishInfo ''Lasagna'',
          LogError ''Failed to get dish info: timeout'',
          EditMessage 1 7 (msg_dish_unknown ''Lasagna'')]
   \<and> filter is_AddSuggestion
        [SendMessage 1 (msg_looking_up ''Lasagna''), GetDishInfo ''Lasagna'',
         LogError ''Failed to get dish info: timeout'',
         EditMessage 1 7 (msg_dish_unknown ''Lasagna'')] = []"
  by (simp add: suggest_def Let_def command_message_def anna_def dish_unknown_reply
      dish_unknown_sent message_id_of_def)

section \<open>The claim about the ingestion of ingredients\<close>

lemma upserts_append [simp]: "upserts (xs @ ys) = upserts xs @ upserts ys"
  by (simp add: upserts_def)

lemma upserts_Cons [simp]: "upserts (x # xs) = upsert_of x @ upserts xs"
  by (simp add: upserts_def)

lemma upserts_Nil [simp]: "upserts [] = []"
  by (simp add: upserts_def)

lemma upserts_add_ingredients:
  "upserts (add_ingredients env c names) = map (\<lambda>n. (c, n, [])) names"
  by (induction names) (auto split: option.splits)

lemma default_text_outcome:
  assumes "GetState tbl (msg_ChatID message) = StateAddingIngredients"
  shows "ingestion_outcome (msg_ChatID message) msg_text_unreadable msg_text_nothing
           (parseIngredientsFromText env (msg_Text message)) (default_text env tbl message)"
  using assms
  by (auto simp: ingestion_outcome_def default_text_def Let_def upserts_add_ingredients
      split: sum.splits)

lemma default_photo_outcome:
  assumes "GetState tbl (msg_ChatID message) = StateAddingIngredients
           \<or> GetState tbl (msg_ChatID message) = StateAddingPhotos"
    and "getFileURL env (last (msg_Photo message)) = Inr url"
  shows "ingestion_outcome (msg_ChatID message) msg_photo_unreadable msg_photo_nothing
           (extractIngredientsFromPhoto env url) (default_photo env tbl message)"
  using assms
  by (auto simp: ingestion_outcome_def default_photo_def Let_def upserts_add_ingredients
      split: sum.splits)

lemma add_photo_outcome:
  assumes "msg_Photo message \<noteq> []"
    and "getFileURL env (last (msg_Photo message)) = Inr url"
  shows "ingestion_outcome (msg_ChatID message) msg_photo_unreadable msg_photo_nothing
           (extractIngredientsFromPhoto env url) (add_photo env message)"
  using assms
  by (auto simp: ingestion_outcome_def add_photo_def Let_def upserts_add_ingredients
      split: sum.splits)

lemma hungry_text: "msg_Text (text_message ''eggs and flour'') = ''eggs and flour''"
  by (simp add: text_message_def)

text \<open>
  C8. In the three places where the reply of the OpenAI client is turned into ingredients (a
  text that is not a command, in the mode adding ingredients; a photo that is not a command,
  in the modes adding ingredients and adding photos; the add_photo command with a photo):
  when the client fails or reads no ingredient, the chat is told and nothing is upserted;
  otherwise every name read is upserted, in order, whatever the fridge service answers to
  each upsert.
\<close>

theorem ingestion_failure_policy:
  "(upd_Message update = Some message \<and> msg_Photo message = [] \<and> msg_Text message \<noteq> []
      \<and> \<not> msg_IsCommand message
      \<and> GetState tbl (msg_ChatID message) = StateAddingIngredients
      \<longrightarrow> ingestion_outcome (msg_ChatID message) msg_text_unreadable msg_text_nothing
            (parseIngredientsFromText env (msg_Text message)) (defaultHandler env tbl update))
   \<and> (upd_Message update = Some message \<and> msg_Photo message \<noteq> [] \<and> \<not> msg_IsCommand message
      \<and> (GetState tbl (msg_ChatID message) = StateAddingIngredients
          \<or> GetState tbl (msg_ChatID message) = StateAddingPhotos)
      \<and> getFileURL env (last (msg_Photo message)) = Inr url
      \<longrightarrow> ingestion_outcome (msg_ChatID message) msg_photo_unreadable msg_photo_nothing
            (extractIngredientsFromPhoto env url) (defaultHandler env tbl update))
   \<and> (msg_Photo message \<noteq> [] \<and> getFileURL env (last (msg_Photo message)) = Inr url
      \<longrightarrow> ingestion_outcome (msg_ChatID message) msg_photo_unreadable msg_photo_nothing
            (extractIngredientsFromPhoto env url) (add_photo env message))"
  using default_text_outcome [of tbl message env] default_photo_outcome [of tbl message env url]
    add_photo_outcome [of message env url]
  by (simp add: defaultHandler_def)

theorem ingestion_failure_policy_witness:
  "upserts (defaultHandler fridge_readonly_env adding_table
              (message_update (text_message ''eggs and flour'')))
     = [(1, ''Eggs'', []), (1, ''Flour'', [])]
   \<and> upserts (defaultHandler reader_down_env adding_table
              (message_update (text_message ''eggs and flour''))) = []
   \<and> SendMessage 1 msg_text_unreadable
        \<in> set (defaultHandler reader_down_env adding_table
                 (message_update (text_message ''eggs and flour'')))
   \<and> upserts (defaultHandler family_env adding_table (message_update photo_message))
        = [(1, ''Milk'', []), (1, ''Butter'', [])]
   \<and> upserts (add_photo reader_blank_env photo_command) = []
   \<and> SendMessage 1 msg_photo_nothing \<in> set (add_photo reader_blank_env photo_command)"
proof -
  have t: "upd_Message (message_update (text_message ''eggs and flour''))
             = Some (text_message ''eggs and flour'')
           \<and> msg_Photo (text_message ''eggs and flour'') = []
           \<and> msg_Text (text_message ''eggs and flour'') \<noteq> []
           \<and> \<not> msg_IsCommand (text_message ''eggs and flour'')
           \<and> GetState adding_table (msg_ChatID (text_message ''eggs and flour''))
               = StateAddingIngredients"
    by (simp add: message_update_def text_message_def GetState_def adding_table_def)
  have p: "upd_Message (message_update photo_message) = Some photo_message
           \<and> msg_Photo photo_message \<noteq> [] \<and> \<not> msg_IsCommand photo_message
           \<and> (GetState adding_table (msg_ChatID photo_message) = StateAddingIngredients
               \<or> GetState adding_table (msg_ChatID photo_message) = StateAddingPhotos)
           \<and> getFileURL family_env (last (msg_Photo photo_message)) = Inr ''https://files/large''"
    by (simp add: message_update_def photo_message_def GetState_def adding_table_def
        family_env_def)
  have c: "msg_Photo photo_command \<noteq> []
           \<and> getFileURL reader_blank_env (last (msg_Photo photo_command))
               = Inr ''https://files/large''"
    by (simp add: photo_command_def reader_blank_env_def family_env_def)
  have r1: "parseIngredientsFromText fridge_readonly_env ''eggs and flour'' = Inr [''Eggs'', ''Flour'']"
    by (simp add: fridge_readonly_env_def family_env_def)
  have r2: "parseIngredientsFromText reader_down_env ''eggs and flour'' = Inl ''timeout''"
    by (simp add: reader_down_env_def family_env_def)
  have r3: "extractIngredientsFromPhoto family_env ''https://files/large'' = Inr [''Milk'', ''Butter'']"
    by (simp add: family_env_def)
  have r4: "extractIngredientsFromPhoto reader_blank_env ''https://files/large'' = Inr []"
    by (simp add: reader_blank_env_def family_env_def)
  have ids: "msg_ChatID (text_message ''eggs and flour'') = 1" "msg_ChatID photo_message = 1"
    "msg_ChatID photo_command = 1"
    by (simp_all add: text_message_def photo_message_def photo_command_def)
  from ingestion_failure_policy [of "message_update (text_message ''eggs and flour'')"
         "text_message ''eggs and flour''" adding_table fridge_readonly_env "[]"]
       ingestion_failure_policy [of "message_update (text_message ''eggs and flour'')"
         "text_message ''eggs and flour''" adding_table reader_down_env "[]"]
       ingestion_failure_policy [of "message_update photo_message" photo_message adding_table
         family_env "''https://files/large''"]
       ingestion_failure_policy [of "message_update photo_command" photo_command adding_table
         reader_blank_env "''https://files/large''"]
       t p c
  show ?thesis
    by (simp add: ingestion_outcome_def hungry_text r1 r2 r3 r4 ids)
qed

section \<open>The claims about the dispatch of button presses\<close>

lemma answers_Cons [simp]: "answers i (x # xs) = answer_of i x @ answers i xs"
  by (simp add: answers_def)

lemma answers_Nil [simp]: "answers i [] = []"
  by (simp add: answers_def)

lemma answers_append [simp]: "answers i (xs @ ys) = answers i xs @ answers i ys"
  by (simp add: answers_def)

lemma registered_handlers_answer:
  assumes "(p, h) \<in> set (callbackHandlers env)" and "cb_Message cq = Some m"
  shows "\<exists>es. h cq = Inr es \<and> length (answers (cb_ID cq) es) = 1"
  using assms
  by (auto simp: callbackHandlers_def done_adding_def add_more_def show_fridge_def
      done_adding_photos_def cancel_adding_photos_def Let_def split: sum.splits)

lemma dispatch_callback_no_match:
  "\<not> list_ex (\<lambda>(p, h). tag_matches p (cb_Data cq)) hs \<Longrightarrow> dispatch_callback hs cq = ([], None)"
  by (induction hs) (auto simp: Let_def)

lemma dispatch_callback_match:
  assumes "list_ex (\<lambda>(p, h). tag_matches p (cb_Data cq)) hs"
    and "\<forall>(p, h) \<in> set hs. \<exists>es. h cq = Inr es \<and> length (answers (cb_ID cq) es) = 1"
  shows "snd (dispatch_callback hs cq) = None
         \<and> length (answers (cb_ID cq) (fst (dispatch_callback hs cq))) = 1"
  using assms
proof (induction hs)
  case Nil
  then show ?case by simp
next
  case (Cons a hs)
  obtain p h where a: "a = (p, h)" by (cases a)
  show ?case
  proof (cases "tag_matches p (cb_Data cq)")
    case True
    from Cons.prems(2) a obtain es where "h cq = Inr es" "length (answers (cb_ID cq) es) = 1"
      by auto
    with True a show ?thesis by (simp add: Let_def logged_def)
  next
    case False
    with Cons a show ?thesis by (simp add: Let_def)
  qed
qed

lemma bot_step_callback:
  assumes "upd_Message update = None" and "upd_CallbackQuery update = Some cq"
    and "cb_Message cq = Some m"
  shows "bot_step env cfg visited tbl update = dispatch_callback visited cq"
  using assms by (simp add: bot_step_def Start_step_def)

lemma list_ex_same_set: "set xs = set ys \<Longrightarrow> list_ex P xs = list_ex P ys"
  by (simp add: list_ex_iff)

lemma press_parts:
  "upd_Message (button_press d) = None"
  "upd_CallbackQuery (button_press d) =
     Some \<lparr>cb_ID = ''q1'', cb_From = anna, cb_Message = Some (text_message msg_more_or_done),
           cb_Data = d\<rparr>"
  by (simp_all add: button_press_def)

lemma registered_tags:
  "list_ex (\<lambda>(p, h). tag_matches p d) (callbackHandlers env) =
     (tag_matches ''done_adding'' d \<or> tag_matches ''add_more'' d \<or> tag_matches ''show_fridge'' d
      \<or> tag_matches ''done_adding_photos'' d \<or> tag_matches ''cancel_adding_photos'' d)"
  by (simp add: callbackHandlers_def)

text \<open>
  C9, as the code has it. For a button press that carries the message it was pressed under,
  and for every order in which the loop visits the registered callback handlers: when a
  registered tag is a prefix of the data, the handler that runs answers the callback query
  exactly once and does not panic; when no registered tag is a prefix of the data, the bot
  makes no call at all, so the press is not answered.
\<close>

theorem callback_acknowledged_when_matched:
  assumes "upd_Message update = None" and "upd_CallbackQuery update = Some cq"
    and "cb_Message cq = Some m"
    and "set visited = set (callbackHandlers env)"
  shows "(list_ex (\<lambda>(p, h). tag_matches p (cb_Data cq)) (callbackHandlers env) \<longrightarrow>
            snd (bot_step env cfg visited tbl update) = None
            \<and> length (answers (cb_ID cq) (fst (bot_step env cfg visited tbl update))) = 1)
         \<and> (\<not> list_ex (\<lambda>(p, h). tag_matches p (cb_Data cq)) (callbackHandlers env) \<longrightarrow>
            bot_step env cfg visited tbl update = ([], None))"
proof -
  have step: "bot_step env cfg visited tbl update = dispatch_callback visited cq"
    using assms(1-3) by (rule bot_step_callback)
  have same: "list_ex (\<lambda>(p, h). tag_matches p (cb_Data cq)) visited
              = list_ex (\<lambda>(p, h). tag_matches p (cb_Data cq)) (callbackHandlers env)"
    using assms(4) by (rule list_ex_same_set)
  have ack: "\<forall>(p, h) \<in> set visited. \<exists>es. h cq = Inr es \<and> length (answers (cb_ID cq) es) = 1"
    using registered_handlers_answer [OF _ assms(3)] assms(4) by blast
  show ?thesis
    unfolding step using dispatch_callback_match [OF _ ack] dispatch_callback_no_match [of cq visited]
      same by blast
qed

theorem callback_acknowledged_when_matched_witness:
  "snd (bot_step family_env family_cfg (rev (callbackHandlers family_env)) idle_table
          (button_press ''add_more'')) = None
   \<and> length (answers ''q1'' (fst (bot_step family_env family_cfg
        (rev (callbackHandlers family_env)) idle_table (button_press ''add_more'')))) = 1
   \<and> bot_step family_env family_cfg (rev (callbackHandlers family_env)) idle_table
        (button_press ''later'') = ([], None)"
proof -
  have v: "set (rev (callbackHandlers family_env)) = set (callbackHandlers family_env)"
    by simp
  have m: "cb_Message \<lparr>cb_ID = ''q1'', cb_From = anna,
             cb_Message = Some (text_message msg_more_or_done), cb_Data = d\<rparr>
           = Some (text_message msg_more_or_done)" for d
    by simp
  have yes: "list_ex (\<lambda>(p, h). tag_matches p (cb_Data \<lparr>cb_ID = ''q1'', cb_From = anna,
               cb_Message = Some (text_message msg_more_or_done), cb_Data = ''add_more''\<rparr>))
               (callbackHandlers family_env)"
    by (simp add: registered_tags) (simp add: tag_matches_def)
  have no: "\<not> list_ex (\<lambda>(p, h). tag_matches p (cb_Data \<lparr>cb_ID = ''q1'', cb_From = anna,
               cb_Message = Some (text_message msg_more_or_done), cb_Data = ''later''\<rparr>))
               (callbackHandlers family_env)"
    by (simp add: registered_tags) (simp add: tag_matches_def)
  from callback_acknowledged_when_matched [OF press_parts m v, of "''add_more''" family_cfg idle_table]
       callback_acknowledged_when_matched [OF press_parts m v, of "''later''" family_cfg idle_table]
       yes no
  show ?thesis by simp
qed

text \<open>A press whose data no registered tag matches: nothing is called, and the callback
  query gets no answer.\<close>

theorem callback_unmatched_counterexample:
  "bot_step family_env family_cfg (callbackHandlers family_env) idle_table (button_press ''later'')
     = ([], None)
   \<and> answers ''q1'' (fst (bot_step family_env family_cfg (callbackHandlers family_env) idle_table
                            (button_press ''later''))) = []"
  by (simp add: bot_step_def Start_step_def button_press_def callbackHandlers_def
      tag_matches_def Let_def)

text \<open>The four registered tags other than \<^verbatim>\<open>done_adding_photos\<close> start with four
  different characters, so at most one of them is a prefix of any data.\<close>

lemma tag_first: "tag_matches (c # p) d \<Longrightarrow> hd d = c"
  by (cases d) (auto simp: tag_matches_def)

lemma registered_keys:
  "(p, h) \<in> set (callbackHandlers env) \<Longrightarrow>
     p \<in> {''done_adding'', ''add_more'', ''show_fridge'', ''done_adding_photos'',
          ''cancel_adding_photos''}"
  by (auto simp: callbackHandlers_def)

lemma registered_handler_of_key:
  "(p, h) \<in> set (callbackHandlers env) \<Longrightarrow>
     h = (if p = ''done_adding'' then done_adding env
          else if p = ''add_more'' then add_more env
          else if p = ''show_fridge'' then show_fridge env
          else if p = ''done_adding_photos'' then done_adding_photos env
          else cancel_adding_photos env)"
  by (auto simp: callbackHandlers_def)

lemma first_char_of_tag:
  assumes "tag_matches p d"
    and "p \<in> {''done_adding'', ''add_more'', ''show_fridge'', ''cancel_adding_photos''}"
  shows "p = (if hd d = CHR ''d'' then ''done_adding'' else if hd d = CHR ''a'' then ''add_more''
              else if hd d = CHR ''s'' then ''show_fridge'' else ''cancel_adding_photos'')"
proof -
  from assms(2) consider "p = ''done_adding''" | "p = ''add_more''" | "p = ''show_fridge''"
    | "p = ''cancel_adding_photos''" by blast
  then show ?thesis
  proof cases
    case 1
    with assms(1) have "hd d = CHR ''d''" using tag_first [of "CHR ''d''" "''one_adding''" d] by simp
    with 1 show ?thesis by simp
  next
    case 2
    with assms(1) have "hd d = CHR ''a''" using tag_first [of "CHR ''a''" "''dd_more''" d] by simp
    with 2 show ?thesis by simp
  next
    case 3
    with assms(1) have "hd d = CHR ''s''" using tag_first [of "CHR ''s''" "''how_fridge''" d] by simp
    with 3 show ?thesis by simp
  next
    case 4
    with assms(1) have "hd d = CHR ''c''"
      using tag_first [of "CHR ''c''" "''ancel_adding_photos''" d] by simp
    with 4 show ?thesis by simp
  qed
qed

lemma dispatch_callback_unique:
  assumes "(p, h) \<in> set hs" and "tag_matches p (cb_Data cq)"
    and "\<forall>(p', h') \<in> set hs. tag_matches p' (cb_Data cq) \<longrightarrow> p' = p \<and> h' = h"
  shows "dispatch_callback hs cq =
           logged (LogInfo (''Handling callback: '' @ cb_Data cq @ '' from user ''
                             @ user_UserName (cb_From cq))) (h cq)"
  using assms
proof (induction hs)
  case Nil
  then show ?case by simp
next
  case (Cons a hs)
  obtain p' h' where a: "a = (p', h')" by (cases a)
  show ?case
  proof (cases "tag_matches p' (cb_Data cq)")
    case True
    with Cons.prems(3) a have "h' = h" by auto
    with True a show ?thesis by (simp add: Let_def)
  next
    case False
    with Cons a have "(p, h) \<in> set hs" by auto
    with Cons False a show ?thesis by (simp add: Let_def)
  qed
qed

lemma one_tag_at_most:
  assumes "\<not> tag_matches ''done_adding_photos'' d"
    and "(p, h) \<in> set (callbackHandlers env)" and "(p', h') \<in> set (callbackHandlers env)"
    and "tag_matches p d" and "tag_matches p' d"
  shows "p' = p \<and> h' = h"
proof -
  have np: "q \<noteq> ''done_adding_photos''" if "tag_matches q d" for q
  proof
    assume "q = ''done_adding_photos''"
    with that have "tag_matches ''done_adding_photos'' d" by simp
    with assms(1) show False by (rule notE)
  qed
  have four: "q \<in> {''done_adding'', ''add_more'', ''show_fridge'', ''cancel_adding_photos''}"
    if "tag_matches q d" and "(q, g) \<in> set (callbackHandlers env)" for q g
    using registered_keys [OF that(2)] np [OF that(1)] by simp
  have "p = (if hd d = CHR ''d'' then ''done_adding'' else if hd d = CHR ''a'' then ''add_more''
              else if hd d = CHR ''s'' then ''show_fridge'' else ''cancel_adding_photos'')"
    using assms(4) four [OF assms(4) assms(2)] by (rule first_char_of_tag)
  moreover have "p' = (if hd d = CHR ''d'' then ''done_adding'' else if hd d = CHR ''a'' then ''add_more''
              else if hd d = CHR ''s'' then ''show_fridge'' else ''cancel_adding_photos'')"
    using assms(5) four [OF assms(5) assms(3)] by (rule first_char_of_tag)
  ultimately have same: "p' = p" by simp
  have "h = (if p = ''done_adding'' then done_adding env
          else if p = ''add_more'' then add_more env
          else if p = ''show_fridge'' then show_fridge env
          else if p = ''done_adding_photos'' then done_adding_photos env
          else cancel_adding_photos env)"
    using assms(2) by (rule registered_handler_of_key)
  moreover have "h' = (if p = ''done_adding'' then done_adding env
          else if p = ''add_more'' then add_more env
          else if p = ''show_fridge'' then show_fridge env
          else if p = ''done_adding_photos'' then done_adding_photos env
          else cancel_adding_photos env)"
    using assms(3) unfolding same by (rule registered_handler_of_key)
  ultimately have "h' = h" by simp
  with same show ?thesis by (rule conjI)
qed

text \<open>Where the dispatch does not depend on the order: every press whose data does not start
  with \<^verbatim>\<open>done_adding_photos\<close>.\<close>

lemma dispatch_order_independent:
  assumes "\<not> tag_matches ''done_adding_photos'' (cb_Data cq)"
    and "set visited = set (callbackHandlers env)"
  shows "dispatch_callback visited cq = dispatch_callback (callbackHandlers env) cq"
proof (cases "list_ex (\<lambda>(p, h). tag_matches p (cb_Data cq)) (callbackHandlers env)")
  case False
  moreover from False assms(2) have "\<not> list_ex (\<lambda>(p, h). tag_matches p (cb_Data cq)) visited"
    by (simp add: list_ex_iff)
  ultimately show ?thesis by (simp add: dispatch_callback_no_match)
next
  case True
  then obtain p h where ph: "(p, h) \<in> set (callbackHandlers env)" "tag_matches p (cb_Data cq)"
    by (auto simp: list_ex_iff)
  have only: "\<forall>(p', h') \<in> set (callbackHandlers env).
                tag_matches p' (cb_Data cq) \<longrightarrow> p' = p \<and> h' = h"
    using one_tag_at_most [OF assms(1) ph(1) _ ph(2)] by blast
  from ph(1) assms(2) have in_visited: "(p, h) \<in> set visited" by simp
  from only assms(2) have only_visited: "\<forall>(p', h') \<in> set visited.
                tag_matches p' (cb_Data cq) \<longrightarrow> p' = p \<and> h' = h" by simp
  have "dispatch_callback visited cq =
          logged (LogInfo (''Handling callback: '' @ cb_Data cq @ '' from user ''
                            @ user_UserName (cb_From cq))) (h cq)"
    using in_visited ph(2) only_visited by (rule dispatch_callback_unique)
  moreover have "dispatch_callback (callbackHandlers env) cq =
          logged (LogInfo (''Handling callback: '' @ cb_Data cq @ '' from user ''
                            @ user_UserName (cb_From cq))) (h cq)"
    using ph(1) ph(2) only by (rule dispatch_callback_unique)
  ultimately show ?thesis by simp
qed

text \<open>
  C10. The data \<^verbatim>\<open>done_adding_photos\<close> has two registered tags as prefixes,
  \<^verbatim>\<open>done_adding\<close> and \<^verbatim>\<open>done_adding_photos\<close>. Visited in the order of registration,
  the handler of \<^verbatim>\<open>done_adding\<close> runs; visited in the reverse order, that of
  \<^verbatim>\<open>done_adding_photos\<close>. Both orders visit the same entries, and Go fixes neither.
\<close>

theorem callback_dispatch_order_dependent:
  "set (rev (callbackHandlers family_env)) = set (callbackHandlers family_env)
   \<and> answers ''q1'' (fst (bot_step family_env family_cfg (callbackHandlers family_env) idle_table
                            (button_press ''done_adding_photos'')))
       = [''Thanks! Your fridge is now updated.'']
   \<and> answers ''q1'' (fst (bot_step family_env family_cfg (rev (callbackHandlers family_env))
                            idle_table (button_press ''done_adding_photos'')))
       = [''Thanks! Your fridge is now updated with ingredients from your photos.'']"
proof -
  have same: "set (rev (callbackHandlers family_env)) = set (callbackHandlers family_env)"
    by simp
  have first: "answers ''q1'' (fst (bot_step family_env family_cfg (callbackHandlers family_env)
                 idle_table (button_press ''done_adding_photos'')))
               = [''Thanks! Your fridge is now updated.'']"
    by (simp add: bot_step_def Start_step_def button_press_def callbackHandlers_def
        tag_matches_def Let_def logged_def done_adding_def text_message_def)
  have last: "answers ''q1'' (fst (bot_step family_env family_cfg
                 (rev (callbackHandlers family_env)) idle_table
                 (button_press ''done_adding_photos'')))
               = [''Thanks! Your fridge is now updated with ingredients from your photos.'']"
    by (simp add: bot_step_def Start_step_def button_press_def callbackHandlers_def
        tag_matches_def Let_def logged_def done_adding_photos_def text_message_def family_fridge)
  from same first last show ?thesis by blast
qed

end
